theory Spec2Isabelle
  imports Complex_Main "HOL-Library.Sublist" "HOL-Library.Multiset"
    "HOL-Library.Char_ord" "HOL-Library.List_Lexorder"
begin

section \<open>Primitive Go types\<close>

text \<open>
  A Go \<^verbatim>\<open>error\<close> built by \<^verbatim>\<open>errors.New\<close> or \<^verbatim>\<open>fmt.Errorf\<close> is modelled by the
  text that its \<^verbatim>\<open>Error()\<close> method returns; \<^verbatim>\<open>fmt.Errorf("prefix: %w", err)\<close> is
  the prefix followed by the text of the wrapped error. A \<^verbatim>\<open>nil\<close> error is \<open>None\<close>.
\<close>

type_synonym error = string

text \<open>
  A \<^verbatim>\<open>time.Time\<close> is modelled by the instant it denotes (an integer number of clock
  ticks); \<^verbatim>\<open>Before\<close> and \<^verbatim>\<open>After\<close> are the strict orders on instants. The value of
  every \<^verbatim>\<open>time.Now()\<close> call is a parameter of the function that makes the call.
\<close>

type_synonym Time = int

text \<open>
  A \<^verbatim>\<open>float64\<close> is a finite number, an infinity or a NaN. The finite values are
  over-approximated by the reals; only comparisons are used by the code. Every
  comparison with a NaN operand is false, as IEEE 754 and Go define it.
\<close>

datatype float64 = Finite real | PosInf | NegInf | NaN

fun f64_less :: "float64 \<Rightarrow> float64 \<Rightarrow> bool" where
  "f64_less NaN b = False"
| "f64_less a NaN = False"
| "f64_less (Finite x) (Finite y) = (x < y)"
| "f64_less a NegInf = False"
| "f64_less NegInf b = True"
| "f64_less PosInf b = False"
| "f64_less (Finite x) PosInf = True"

fun f64_le :: "float64 \<Rightarrow> float64 \<Rightarrow> bool" where
  "f64_le NaN b = False"
| "f64_le a NaN = False"
| "f64_le a b = (\<not> f64_less b a)"

section \<open>Package payment: value objects\<close>

datatype PaymentID = PaymentID string

definition PaymentIDFromString :: "string \<Rightarrow> PaymentID" where
  "PaymentIDFromString s = PaymentID s"

fun PaymentID_String :: "PaymentID \<Rightarrow> string" where
  "PaymentID_String (PaymentID v) = v"

record Amount =
  amt_value :: float64
  amt_currency :: string

definition NewAmount :: "float64 \<Rightarrow> string \<Rightarrow> error + Amount" where
  "NewAmount v currency =
     (if f64_less v (Finite 0) then Inl ''amount cannot be negative''
      else if currency = [] then Inl ''currency cannot be empty''
      else Inr \<lparr>amt_value = v, amt_currency = currency\<rparr>)"

definition Value :: "Amount \<Rightarrow> float64" where
  "Value a = amt_value a"

definition Currency :: "Amount \<Rightarrow> string" where
  "Currency a = amt_currency a"

section \<open>Package payment: the Payment entity\<close>

text \<open>
  \<^verbatim>\<open>type PaymentStatus int\<close> with its five \<^verbatim>\<open>iota\<close> constants. The type stays an
  integer, so that the \<^verbatim>\<open>default\<close> branch of \<^verbatim>\<open>String\<close> is a branch of the model.
\<close>

type_synonym PaymentStatus = int

definition PaymentStatusPending :: PaymentStatus where
  "PaymentStatusPending = 0"

definition PaymentStatusProcessing :: PaymentStatus where
  "PaymentStatusProcessing = 1"

definition PaymentStatusCompleted :: PaymentStatus where
  "PaymentStatusCompleted = 2"

definition PaymentStatusFailed :: PaymentStatus where
  "PaymentStatusFailed = 3"

definition PaymentStatusCancelled :: PaymentStatus where
  "PaymentStatusCancelled = 4"

lemmas PaymentStatus_defs =
  PaymentStatusPending_def PaymentStatusProcessing_def PaymentStatusCompleted_def
  PaymentStatusFailed_def PaymentStatusCancelled_def

definition PaymentStatus_String :: "PaymentStatus \<Rightarrow> string" where
  "PaymentStatus_String s =
     (if s = PaymentStatusPending then ''pending''
      else if s = PaymentStatusProcessing then ''processing''
      else if s = PaymentStatusCompleted then ''completed''
      else if s = PaymentStatusFailed then ''failed''
      else if s = PaymentStatusCancelled then ''cancelled''
      else ''unknown'')"

record Payment =
  payment_id :: PaymentID
  amount :: Amount
  status :: PaymentStatus
  description :: string
  createdAt :: Time
  updatedAt :: Time

text \<open>
  \<^verbatim>\<open>NewPayment\<close> draws the identifier from \<^verbatim>\<open>uuid.New()\<close> and the time from
  \<^verbatim>\<open>time.Now()\<close>: both are parameters here (\<open>uuid\<close> and \<open>now\<close>).
\<close>

definition NewPayment :: "string \<Rightarrow> Time \<Rightarrow> Amount \<Rightarrow> string \<Rightarrow> Payment" where
  "NewPayment uuid now a d =
     \<lparr>payment_id = PaymentID uuid, amount = a, status = PaymentStatusPending,
      description = d, createdAt = now, updatedAt = now\<rparr>"

text \<open>
  The four guarded transitions mutate the receiver and return an error. The model
  returns the error together with the entity after the call; \<open>now\<close> is the value of
  the \<^verbatim>\<open>time.Now()\<close> call of the accepting branch.
\<close>

definition Process :: "Time \<Rightarrow> Payment \<Rightarrow> error option \<times> Payment" where
  "Process now p =
     (if status p \<noteq> PaymentStatusPending
      then (Some ''payment can only be processed from pending status'', p)
      else (None, p\<lparr>status := PaymentStatusProcessing, updatedAt := now\<rparr>))"

definition Complete :: "Time \<Rightarrow> Payment \<Rightarrow> error option \<times> Payment" where
  "Complete now p =
     (if status p \<noteq> PaymentStatusProcessing
      then (Some ''payment can only be completed from processing status'', p)
      else (None, p\<lparr>status := PaymentStatusCompleted, updatedAt := now\<rparr>))"

definition Fail :: "Time \<Rightarrow> Payment \<Rightarrow> error option \<times> Payment" where
  "Fail now p =
     (if status p = PaymentStatusCompleted
      then (Some ''completed payment cannot be failed'', p)
      else (None, p\<lparr>status := PaymentStatusFailed, updatedAt := now\<rparr>))"

definition Cancel :: "Time \<Rightarrow> Payment \<Rightarrow> error option \<times> Payment" where
  "Cancel now p =
     (if status p = PaymentStatusCompleted \<or> status p = PaymentStatusProcessing
      then (Some ''payment cannot be cancelled in current status'', p)
      else (None, p\<lparr>status := PaymentStatusCancelled, updatedAt := now\<rparr>))"

text \<open>
  The transition table of the specification (section 4.1), written from its words: the
  statuses an operation is valid from, and the guard message of its row. It is what
  the code above is compared with.
\<close>

datatype transition = OpProcess | OpComplete | OpFail | OpCancel

fun run_transition :: "transition \<Rightarrow> Time \<Rightarrow> Payment \<Rightarrow> error option \<times> Payment" where
  "run_transition OpProcess = Process"
| "run_transition OpComplete = Complete"
| "run_transition OpFail = Fail"
| "run_transition OpCancel = Cancel"

definition spec_statuses :: "PaymentStatus set" where
  "spec_statuses = {PaymentStatusPending, PaymentStatusProcessing, PaymentStatusCompleted,
     PaymentStatusFailed, PaymentStatusCancelled}"

fun spec_valid_from :: "transition \<Rightarrow> PaymentStatus set" where
  "spec_valid_from OpProcess = {PaymentStatusPending}"
| "spec_valid_from OpComplete = {PaymentStatusProcessing}"
| "spec_valid_from OpFail =
     {PaymentStatusPending, PaymentStatusProcessing, PaymentStatusFailed, PaymentStatusCancelled}"
| "spec_valid_from OpCancel =
     {PaymentStatusPending, PaymentStatusFailed, PaymentStatusCancelled}"

fun spec_table_message :: "transition \<Rightarrow> string" where
  "spec_table_message OpProcess = ''can only be processed from pending''"
| "spec_table_message OpComplete = ''can only be completed from processing''"
| "spec_table_message OpFail = ''completed payment cannot be failed''"
| "spec_table_message OpCancel = ''cannot be cancelled in current status''"

text \<open>The message each guard returns in the source, as the package's tests expect it.\<close>

fun guard_message :: "transition \<Rightarrow> string" where
  "guard_message OpProcess = ''payment can only be processed from pending status''"
| "guard_message OpComplete = ''payment can only be completed from processing status''"
| "guard_message OpFail = ''completed payment cannot be failed''"
| "guard_message OpCancel = ''payment cannot be cancelled in current status''"


section \<open>Dynamic values and the encoding/json round trip\<close>

text \<open>
  The audit package takes payloads of type \<^verbatim>\<open>interface{}\<close> and turns them into a
  \<^verbatim>\<open>map[string]interface{}\<close> by \<^verbatim>\<open>json.Marshal\<close> followed by \<^verbatim>\<open>json.Unmarshal\<close>.
  \<open>gvalue\<close> is the universe of values a caller passes: the \<^verbatim>\<open>nil\<close> interface, a bool,
  a float64, a string, a \<^verbatim>\<open>time.Time\<close>, a slice, a string-keyed map (a list of its
  key/value pairs, keys distinct) and a channel, which stands for the types the encoder
  does not support. \<open>json\<close> is a JSON document, which is also the shape of the values
  that \<^verbatim>\<open>Unmarshal\<close> stores into an \<^verbatim>\<open>interface{}\<close>. \<open>JTime t\<close> stands for the JSON
  string that holds the RFC 3339 text of \<open>t\<close>; the text itself is not computed, and a
  clock reading is taken to lie in the years 0 to 9999, which the encoder accepts.
  The definitions of this section follow the documented behaviour of the standard
  packages \<^verbatim>\<open>encoding/json\<close> and \<^verbatim>\<open>unicode/utf8\<close>, which the repository calls.
\<close>

datatype gvalue = GNil | GBool bool | GFloat64 float64 | GString string | GTime Time
  | GSlice "gvalue list" | GMap "(string \<times> gvalue) list" | GChan

datatype json = JNull | JBool bool | JNumber float64 | JString string | JTime Time
  | JArray "json list" | JObject "(string \<times> json) list"

text \<open>
  The encoder writes a string as valid UTF-8: every byte at which \<^verbatim>\<open>utf8.DecodeRune\<close>
  finds no valid encoding is replaced by U+FFFD, every valid encoding is kept (escapes
  are undone by the decoder). \<open>DecodeRune_width\<close> is the width of the valid encoding
  at the head of the bytes, and 0 where Go returns \<^verbatim>\<open>(RuneError, 1)\<close>.
\<close>

definition contByte :: "nat \<Rightarrow> bool" where
  "contByte b = (128 \<le> b \<and> b \<le> 191)"

fun DecodeRune_width :: "nat list \<Rightarrow> nat" where
  "DecodeRune_width [] = 0"
| "DecodeRune_width (b0 # bs) =
     (if b0 < 128 then 1
      else if 194 \<le> b0 \<and> b0 \<le> 223 then
        (case bs of b1 # _ \<Rightarrow> if contByte b1 then 2 else 0 | _ \<Rightarrow> 0)
      else if 224 \<le> b0 \<and> b0 \<le> 239 then
        (case bs of b1 # b2 # _ \<Rightarrow>
           if (if b0 = 224 then 160 else 128) \<le> b1 \<and> b1 \<le> (if b0 = 237 then 159 else 191)
              \<and> contByte b2 then 3 else 0
         | _ \<Rightarrow> 0)
      else if 240 \<le> b0 \<and> b0 \<le> 244 then
        (case bs of b1 # b2 # b3 # _ \<Rightarrow>
           if (if b0 = 240 then 144 else 128) \<le> b1 \<and> b1 \<le> (if b0 = 244 then 143 else 191)
              \<and> contByte b2 \<and> contByte b3 then 4 else 0
         | _ \<Rightarrow> 0)
      else 0)"

function jsonString :: "string \<Rightarrow> string" where
  "jsonString [] = []"
| "jsonString (c # cs) =
     (if DecodeRune_width (map of_char (c # cs)) = 0
      then map char_of [239, 191, 189 :: nat] @ jsonString cs
      else take (DecodeRune_width (map of_char (c # cs))) (c # cs) @
           jsonString (drop (DecodeRune_width (map of_char (c # cs))) (c # cs)))"
  by pat_completeness auto
termination
  by (relation "measure length") auto

text \<open>
  \<open>firstError\<close> is the encoder stopping at the first value it cannot encode. The
  encoder visits the entries of a map in the order of their keys, so the error of a map
  is the error of the first failing key in that order. A finite float64 is written in
  the shortest form that reads back as the same float64; a NaN or an infinity is an
  \<^verbatim>\<open>UnsupportedValueError\<close>.
\<close>

fun firstError :: "('k \<times> (error + 'a)) list \<Rightarrow> error + ('k \<times> 'a) list" where
  "firstError [] = Inr []"
| "firstError ((k, Inl e) # rs) = Inl e"
| "firstError ((k, Inr x) # rs) =
     (case firstError rs of Inl e \<Rightarrow> Inl e | Inr xs \<Rightarrow> Inr ((k, x) # xs))"

fun Marshal :: "gvalue \<Rightarrow> error + json" where
  "Marshal GNil = Inr JNull"
| "Marshal (GBool b) = Inr (JBool b)"
| "Marshal (GFloat64 f) =
     (case f of
        Finite x \<Rightarrow> Inr (JNumber (Finite x))
      | PosInf \<Rightarrow> Inl ''json: unsupported value: +Inf''
      | NegInf \<Rightarrow> Inl ''json: unsupported value: -Inf''
      | NaN \<Rightarrow> Inl ''json: unsupported value: NaN'')"
| "Marshal (GString s) = Inr (JString (jsonString s))"
| "Marshal (GTime t) = Inr (JTime t)"
| "Marshal (GSlice vs) =
     (case firstError (map (\<lambda>v. ((), Marshal v)) vs) of
        Inl e \<Rightarrow> Inl e
      | Inr js \<Rightarrow> Inr (JArray (map snd js)))"
| "Marshal (GMap kvs) =
     (case firstError (sort_key fst (map (\<lambda>kv. (fst kv, Marshal (snd kv))) kvs)) of
        Inl e \<Rightarrow> Inl e
      | Inr members \<Rightarrow> Inr (JObject (map (\<lambda>kv. (jsonString (fst kv), snd kv)) members)))"
| "Marshal GChan = Inl ''json: unsupported type: chan int''"

text \<open>
  \<^verbatim>\<open>json.Unmarshal(jsonData, &dataMap)\<close> with \<^verbatim>\<open>dataMap\<close> a nil
  \<^verbatim>\<open>map[string]interface{}\<close>: an object fills a new map (a repeated key keeps its last
  value), \<^verbatim>\<open>null\<close> leaves the map nil (read here as the empty map), and any other
  document is an \<^verbatim>\<open>UnmarshalTypeError\<close>.
\<close>

definition Unmarshal_map :: "json \<Rightarrow> error + (string \<rightharpoonup> json)" where
  "Unmarshal_map j =
     (case j of
        JObject members \<Rightarrow> Inr (map_of (rev members))
      | JNull \<Rightarrow> Inr Map.empty
      | JBool b \<Rightarrow>
          Inl ''json: cannot unmarshal bool into Go value of type map[string]interface {}''
      | JNumber n \<Rightarrow>
          Inl ''json: cannot unmarshal number into Go value of type map[string]interface {}''
      | JString s \<Rightarrow>
          Inl ''json: cannot unmarshal string into Go value of type map[string]interface {}''
      | JTime t \<Rightarrow>
          Inl ''json: cannot unmarshal string into Go value of type map[string]interface {}''
      | JArray js \<Rightarrow>
          Inl ''json: cannot unmarshal array into Go value of type map[string]interface {}'')"

section \<open>Package audit: the AuditEntry entity\<close>

datatype AuditID = AuditID string

fun AuditID_String :: "AuditID \<Rightarrow> string" where
  "AuditID_String (AuditID v) = v"

type_synonym EntityType = string

definition EntityTypePayment :: EntityType where
  "EntityTypePayment = ''payment''"

type_synonym ActionType = string

definition ActionTypeCreated :: ActionType where
  "ActionTypeCreated = ''created''"

definition ActionTypeUpdated :: ActionType where
  "ActionTypeUpdated = ''updated''"

definition ActionTypeDeleted :: ActionType where
  "ActionTypeDeleted = ''deleted''"

definition ActionTypeProcessed :: ActionType where
  "ActionTypeProcessed = ''processed''"

definition ActionTypeCompleted :: ActionType where
  "ActionTypeCompleted = ''completed''"

definition ActionTypeFailed :: ActionType where
  "ActionTypeFailed = ''failed''"

definition ActionTypeCancelled :: ActionType where
  "ActionTypeCancelled = ''cancelled''"

lemmas ActionType_defs =
  ActionTypeCreated_def ActionTypeUpdated_def ActionTypeDeleted_def ActionTypeProcessed_def
  ActionTypeCompleted_def ActionTypeFailed_def ActionTypeCancelled_def

record AuditEntry =
  audit_id :: AuditID
  entityType :: EntityType
  entityID :: string
  action :: ActionType
  oldData :: "string \<rightharpoonup> json"
  newData :: "string \<rightharpoonup> json"
  userID :: string
  timestamp :: Time
  metadata :: "string \<rightharpoonup> string"

text \<open>
  \<^verbatim>\<open>NewAuditEntry\<close> draws its identifier from \<^verbatim>\<open>uuid.New()\<close> and its timestamp from
  \<^verbatim>\<open>time.Now()\<close>: the parameters \<open>uuid\<close> and \<open>now\<close>.
\<close>

definition NewAuditEntry ::
  "string \<Rightarrow> Time \<Rightarrow> EntityType \<Rightarrow> string \<Rightarrow> ActionType \<Rightarrow> string \<Rightarrow> AuditEntry" where
  "NewAuditEntry uuid now etype eid act uid =
     \<lparr>audit_id = AuditID uuid, entityType = etype, entityID = eid, action = act,
      oldData = Map.empty, newData = Map.empty, userID = uid, timestamp = now,
      metadata = Map.empty\<rparr>"

definition SetOldData :: "gvalue \<Rightarrow> AuditEntry \<Rightarrow> error option \<times> AuditEntry" where
  "SetOldData data a =
     (case Marshal data of
        Inl err \<Rightarrow> (Some err, a)
      | Inr jsonData \<Rightarrow>
          (case Unmarshal_map jsonData of
             Inl err \<Rightarrow> (Some err, a)
           | Inr dataMap \<Rightarrow> (None, a\<lparr>oldData := dataMap\<rparr>)))"

definition SetNewData :: "gvalue \<Rightarrow> AuditEntry \<Rightarrow> error option \<times> AuditEntry" where
  "SetNewData data a =
     (case Marshal data of
        Inl err \<Rightarrow> (Some err, a)
      | Inr jsonData \<Rightarrow>
          (case Unmarshal_map jsonData of
             Inl err \<Rightarrow> (Some err, a)
           | Inr dataMap \<Rightarrow> (None, a\<lparr>newData := dataMap\<rparr>)))"

record AuditFilter =
  EntityType :: "EntityType option"
  EntityID :: "string option"
  Action :: "ActionType option"
  UserID :: "string option"
  FromDate :: "Time option"
  ToDate :: "Time option"

text \<open>
  The \<^verbatim>\<open>Repository\<close> interface of package audit: a repository is its four methods over
  the state \<open>'r\<close> of the implementation. \<open>Save\<close> returns the error and the state after
  the call; a query returns the pair of the source, a slice (\<open>None\<close> is the nil slice)
  and an error.
\<close>

record 'r audit_Repository =
  Save :: "AuditEntry \<Rightarrow> 'r \<Rightarrow> error option \<times> 'r"
  FindByID :: "AuditID \<Rightarrow> 'r \<Rightarrow> AuditEntry option \<times> error option"
  FindByFilter :: "AuditFilter \<Rightarrow> 'r \<Rightarrow> AuditEntry list option \<times> error option"
  FindByEntityID :: "EntityType \<Rightarrow> string \<Rightarrow> 'r \<Rightarrow> AuditEntry list option \<times> error option"

section \<open>Package audit: the domain service\<close>

text \<open>
  Every function takes the repository \<open>repo\<close> the service was built with and the state
  \<open>r\<close> of that repository. \<^verbatim>\<open>oldData != nil\<close> holds for every payload but the nil
  interface.
\<close>

definition RecordAction ::
  "'r audit_Repository \<Rightarrow> string \<Rightarrow> Time \<Rightarrow> EntityType \<Rightarrow> string \<Rightarrow> ActionType \<Rightarrow> string \<Rightarrow>
   gvalue \<Rightarrow> gvalue \<Rightarrow> 'r \<Rightarrow> error option \<times> 'r" where
  "RecordAction repo uuid now etype eid act uid old_data new_data r =
     (case (if old_data \<noteq> GNil
            then SetOldData old_data (NewAuditEntry uuid now etype eid act uid)
            else (None, NewAuditEntry uuid now etype eid act uid)) of
        (Some err, entry) \<Rightarrow> (Some err, r)
      | (None, entry) \<Rightarrow>
          (case (if new_data \<noteq> GNil then SetNewData new_data entry else (None, entry)) of
             (Some err, entry') \<Rightarrow> (Some err, r)
           | (None, entry') \<Rightarrow> Save repo entry' r))"

definition GetAuditEntry ::
  "'r audit_Repository \<Rightarrow> AuditID \<Rightarrow> 'r \<Rightarrow> AuditEntry option \<times> error option" where
  "GetAuditEntry repo aid r = FindByID repo aid r"

definition GetAuditHistory ::
  "'r audit_Repository \<Rightarrow> EntityType \<Rightarrow> string \<Rightarrow> 'r \<Rightarrow> AuditEntry list option \<times> error option" where
  "GetAuditHistory repo etype eid r = FindByEntityID repo etype eid r"

definition GetAuditsByFilter ::
  "'r audit_Repository \<Rightarrow> AuditFilter \<Rightarrow> 'r \<Rightarrow> AuditEntry list option \<times> error option" where
  "GetAuditsByFilter repo flt r = FindByFilter repo flt r"

definition RecordPaymentCreated ::
  "'r audit_Repository \<Rightarrow> string \<Rightarrow> Time \<Rightarrow> string \<Rightarrow> string \<Rightarrow> gvalue \<Rightarrow> 'r \<Rightarrow> error option \<times> 'r" where
  "RecordPaymentCreated repo uuid now paymentID uid paymentData r =
     RecordAction repo uuid now EntityTypePayment paymentID ActionTypeCreated uid GNil paymentData r"

text \<open>
  The \<^verbatim>\<open>switch newStatus\<close> compares an interface value with four string constants: a
  case matches when the value is a string with that text.
\<close>

definition RecordPaymentStatusChange ::
  "'r audit_Repository \<Rightarrow> string \<Rightarrow> Time \<Rightarrow> string \<Rightarrow> string \<Rightarrow> gvalue \<Rightarrow> gvalue \<Rightarrow> 'r \<Rightarrow>
   error option \<times> 'r" where
  "RecordPaymentStatusChange repo uuid now paymentID uid oldStatus newStatus r =
     (case (if newStatus = GString ''processing'' then Some ActionTypeProcessed
            else if newStatus = GString ''completed'' then Some ActionTypeCompleted
            else if newStatus = GString ''failed'' then Some ActionTypeFailed
            else if newStatus = GString ''cancelled'' then Some ActionTypeCancelled
            else None) of
        None \<Rightarrow> (Some ''unknown payment status'', r)
      | Some act \<Rightarrow>
          RecordAction repo uuid now EntityTypePayment paymentID act uid
            (GMap [(''status'', oldStatus)]) (GMap [(''status'', newStatus)]) r)"

section \<open>Package repository: the in-memory audit repository\<close>

text \<open>
  The repository is a Go map from the text of the identifier to the entry, behind a
  lock. A \<^verbatim>\<open>range\<close> over a Go map visits every key once, in an order the language
  leaves unspecified and the runtime randomises: the order \<open>ks\<close> of a loop is a
  parameter, and it is an order of the map when it lists each key of the map once.
  A slice is \<open>None\<close> when nil; \<^verbatim>\<open>append\<close> to the nil slice allocates.
\<close>

record AuditMemoryRepository =
  entries :: "string \<rightharpoonup> AuditEntry"

definition NewAuditMemoryRepository :: AuditMemoryRepository where
  "NewAuditMemoryRepository = \<lparr>entries = Map.empty\<rparr>"

definition range_order :: "string list \<Rightarrow> (string \<rightharpoonup> 'a) \<Rightarrow> bool" where
  "range_order ks m = (distinct ks \<and> set ks = dom m)"

definition append_slice :: "'a list option \<Rightarrow> 'a \<Rightarrow> 'a list option" where
  "append_slice s x = (case s of None \<Rightarrow> Some [x] | Some xs \<Rightarrow> Some (xs @ [x]))"

definition AuditMemory_Save ::
  "AuditEntry \<Rightarrow> AuditMemoryRepository \<Rightarrow> error option \<times> AuditMemoryRepository" where
  "AuditMemory_Save entry r =
     (None, r\<lparr>entries := (entries r)(AuditID_String (audit_id entry) \<mapsto> entry)\<rparr>)"

definition AuditMemory_FindByID ::
  "AuditID \<Rightarrow> AuditMemoryRepository \<Rightarrow> AuditEntry option \<times> error option" where
  "AuditMemory_FindByID aid r =
     (case entries r (AuditID_String aid) of
        None \<Rightarrow> (None, Some ''audit entry not found'')
      | Some entry \<Rightarrow> (Some entry, None))"

definition AuditMemory_FindByEntityID ::
  "string list \<Rightarrow> EntityType \<Rightarrow> string \<Rightarrow> AuditMemoryRepository \<Rightarrow>
   AuditEntry list option \<times> error option" where
  "AuditMemory_FindByEntityID ks etype eid r =
     (foldl (\<lambda>result k.
         case entries r k of
           None \<Rightarrow> result
         | Some entry \<Rightarrow>
             if entityType entry = etype \<and> entityID entry = eid
             then append_slice result entry else result)
       None ks, None)"

definition matchesFilter :: "AuditEntry \<Rightarrow> AuditFilter \<Rightarrow> bool" where
  "matchesFilter entry flt =
     (if (case EntityType flt of None \<Rightarrow> False | Some t \<Rightarrow> entityType entry \<noteq> t) then False
      else if (case EntityID flt of None \<Rightarrow> False | Some i \<Rightarrow> entityID entry \<noteq> i) then False
      else if (case Action flt of None \<Rightarrow> False | Some a \<Rightarrow> action entry \<noteq> a) then False
      else if (case UserID flt of None \<Rightarrow> False | Some u \<Rightarrow> userID entry \<noteq> u) then False
      else if (case FromDate flt of None \<Rightarrow> False | Some d \<Rightarrow> timestamp entry < d) then False
      else if (case ToDate flt of None \<Rightarrow> False | Some d \<Rightarrow> timestamp entry > d) then False
      else True)"

definition AuditMemory_FindByFilter ::
  "string list \<Rightarrow> AuditFilter \<Rightarrow> AuditMemoryRepository \<Rightarrow>
   AuditEntry list option \<times> error option" where
  "AuditMemory_FindByFilter ks flt r =
     (foldl (\<lambda>result k.
         case entries r k of
           None \<Rightarrow> result
         | Some entry \<Rightarrow> if matchesFilter entry flt then append_slice result entry else result)
       None ks, None)"

text \<open>
  The in-memory repository as a value of the interface; \<open>ks\<close> is the order in which
  the runtime runs the \<^verbatim>\<open>range\<close> loop of a query made through it.
\<close>

definition AuditMemory :: "string list \<Rightarrow> AuditMemoryRepository audit_Repository" where
  "AuditMemory ks =
     \<lparr>Save = AuditMemory_Save, FindByID = AuditMemory_FindByID,
      FindByFilter = AuditMemory_FindByFilter ks,
      FindByEntityID = AuditMemory_FindByEntityID ks\<rparr>"

text \<open>
  What the specification says a filter matches (section 3), written from its words:
  every present predicate holds of the entry, the two dates as inclusive bounds. It is
  what \<open>matchesFilter\<close> is compared with.
\<close>

definition spec_filter_matches :: "AuditEntry \<Rightarrow> AuditFilter \<Rightarrow> bool" where
  "spec_filter_matches entry flt =
     ((EntityType flt = None \<or> EntityType flt = Some (entityType entry)) \<and>
      (EntityID flt = None \<or> EntityID flt = Some (entityID entry)) \<and>
      (Action flt = None \<or> Action flt = Some (action entry)) \<and>
      (UserID flt = None \<or> UserID flt = Some (userID entry)) \<and>
      (case FromDate flt of None \<Rightarrow> True | Some d \<Rightarrow> d \<le> timestamp entry) \<and>
      (case ToDate flt of None \<Rightarrow> True | Some d \<Rightarrow> timestamp entry \<le> d))"

section \<open>Package repository: the in-memory payment repository\<close>

text \<open>
  A Go map from the text of the PaymentID to the payment. The map holds pointers:
  \<^verbatim>\<open>FindByID\<close> hands out the stored object, a transition mutates it in place, and
  \<^verbatim>\<open>Update\<close> stores the same pointer again under the key of its id. \<^verbatim>\<open>Save\<close> and
  \<^verbatim>\<open>Update\<close> file a payment under its own id and no transition changes the id, so
  for a stored payment the map after \<^verbatim>\<open>Update\<close> is the map computed here. \<^verbatim>\<open>FindByID\<close>
  returns either a payment or an error, never a nil payment with a nil error.
\<close>

record PaymentMemoryRepository =
  payments :: "string \<rightharpoonup> Payment"

definition NewPaymentMemoryRepository :: PaymentMemoryRepository where
  "NewPaymentMemoryRepository = \<lparr>payments = Map.empty\<rparr>"

definition PaymentMemory_Save ::
  "Payment \<Rightarrow> PaymentMemoryRepository \<Rightarrow> error option \<times> PaymentMemoryRepository" where
  "PaymentMemory_Save p r =
     (None, r\<lparr>payments := (payments r)(PaymentID_String (payment_id p) \<mapsto> p)\<rparr>)"

definition PaymentMemory_FindByID ::
  "PaymentID \<Rightarrow> PaymentMemoryRepository \<Rightarrow> error + Payment" where
  "PaymentMemory_FindByID pid r =
     (case payments r (PaymentID_String pid) of
        None \<Rightarrow> Inl ''payment not found''
      | Some p \<Rightarrow> Inr p)"

definition PaymentMemory_Update ::
  "Payment \<Rightarrow> PaymentMemoryRepository \<Rightarrow> error option \<times> PaymentMemoryRepository" where
  "PaymentMemory_Update p r =
     (if payments r (PaymentID_String (payment_id p)) = None
      then (Some ''payment not found'', r)
      else (None, r\<lparr>payments := (payments r)(PaymentID_String (payment_id p) \<mapsto> p)\<rparr>))"

definition PaymentMemory_Delete ::
  "PaymentID \<Rightarrow> PaymentMemoryRepository \<Rightarrow> error option \<times> PaymentMemoryRepository" where
  "PaymentMemory_Delete pid r =
     (if payments r (PaymentID_String pid) = None
      then (Some ''payment not found'', r)
      else (None, r\<lparr>payments := (payments r)(PaymentID_String pid := None)\<rparr>))"

text \<open>
  The invariant of the map: every payment is filed under the text of its own id.
\<close>

definition filed_under_id :: "PaymentMemoryRepository \<Rightarrow> bool" where
  "filed_under_id r =
     (\<forall>k \<in> dom (payments r). PaymentID_String (payment_id (the (payments r k))) = k)"

section \<open>Package payment: the domain service\<close>

text \<open>
  The service over the in-memory repository. The \<^verbatim>\<open>payment == nil\<close> test of the
  source guards against a repository that returns a nil payment without an error, which
  this repository does not do.
\<close>

definition payment_CreatePayment ::
  "string \<Rightarrow> Time \<Rightarrow> Amount \<Rightarrow> string \<Rightarrow> PaymentMemoryRepository \<Rightarrow>
   (error + Payment) \<times> PaymentMemoryRepository" where
  "payment_CreatePayment uuid now a d r =
     (case PaymentMemory_Save (NewPayment uuid now a d) r of
        (Some err, r') \<Rightarrow> (Inl err, r')
      | (None, r') \<Rightarrow> (Inr (NewPayment uuid now a d), r'))"

definition payment_GetPayment :: "PaymentID \<Rightarrow> PaymentMemoryRepository \<Rightarrow> error + Payment" where
  "payment_GetPayment pid r = PaymentMemory_FindByID pid r"

definition payment_ProcessPayment ::
  "Time \<Rightarrow> PaymentID \<Rightarrow> PaymentMemoryRepository \<Rightarrow> error option \<times> PaymentMemoryRepository" where
  "payment_ProcessPayment now pid r =
     (case PaymentMemory_FindByID pid r of
        Inl err \<Rightarrow> (Some err, r)
      | Inr p \<Rightarrow>
          (case Process now p of
             (Some err, p') \<Rightarrow> (Some err, r)
           | (None, p') \<Rightarrow> PaymentMemory_Update p' r))"

definition payment_CompletePayment ::
  "Time \<Rightarrow> PaymentID \<Rightarrow> PaymentMemoryRepository \<Rightarrow> error option \<times> PaymentMemoryRepository" where
  "payment_CompletePayment now pid r =
     (case PaymentMemory_FindByID pid r of
        Inl err \<Rightarrow> (Some err, r)
      | Inr p \<Rightarrow>
          (case Complete now p of
             (Some err, p') \<Rightarrow> (Some err, r)
           | (None, p') \<Rightarrow> PaymentMemory_Update p' r))"

definition payment_FailPayment ::
  "Time \<Rightarrow> PaymentID \<Rightarrow> PaymentMemoryRepository \<Rightarrow> error option \<times> PaymentMemoryRepository" where
  "payment_FailPayment now pid r =
     (case PaymentMemory_FindByID pid r of
        Inl err \<Rightarrow> (Some err, r)
      | Inr p \<Rightarrow>
          (case Fail now p of
             (Some err, p') \<Rightarrow> (Some err, r)
           | (None, p') \<Rightarrow> PaymentMemory_Update p' r))"

definition payment_CancelPayment ::
  "Time \<Rightarrow> PaymentID \<Rightarrow> PaymentMemoryRepository \<Rightarrow> error option \<times> PaymentMemoryRepository" where
  "payment_CancelPayment now pid r =
     (case PaymentMemory_FindByID pid r of
        Inl err \<Rightarrow> (Some err, r)
      | Inr p \<Rightarrow>
          (case Cancel now p of
             (Some err, p') \<Rightarrow> (Some err, r)
           | (None, p') \<Rightarrow> PaymentMemory_Update p' r))"

section \<open>Package application: the PaymentApplicationService\<close>

text \<open>
  The service holds the payment service and the audit service; its state is the pair of
  the two repositories' states. \<open>arepo\<close> is the repository of the audit service,
  \<open>puuid\<close>, \<open>pnow\<close> are the identifier and time drawn for the payment, \<open>now\<close> the time of
  the transition, \<open>auuid\<close>, \<open>anow\<close> the identifier and time drawn for the audit entry.
\<close>

definition paymentData :: "Payment \<Rightarrow> gvalue" where
  "paymentData p =
     GMap [(''id'', GString (PaymentID_String (payment_id p))),
           (''amount'', GFloat64 (Value (amount p))),
           (''currency'', GString (Currency (amount p))),
           (''description'', GString (description p)),
           (''status'', GString (PaymentStatus_String (status p))),
           (''created_at'', GTime (createdAt p))]"

definition CreatePayment ::
  "'r audit_Repository \<Rightarrow> string \<Rightarrow> Time \<Rightarrow> string \<Rightarrow> Time \<Rightarrow>
   float64 \<Rightarrow> string \<Rightarrow> string \<Rightarrow> string \<Rightarrow> PaymentMemoryRepository \<times> 'r \<Rightarrow>
   (error + Payment) \<times> PaymentMemoryRepository \<times> 'r" where
  "CreatePayment arepo puuid pnow auuid anow amt currency descr uid st =
     (case NewAmount amt currency of
        Inl err \<Rightarrow> (Inl (''invalid amount: '' @ err), st)
      | Inr amountVO \<Rightarrow>
          (case payment_CreatePayment puuid pnow amountVO descr (fst st) of
             (Inl err, pr) \<Rightarrow> (Inl (''failed to create payment: '' @ err), pr, snd st)
           | (Inr p, pr) \<Rightarrow>
               (case RecordPaymentCreated arepo auuid anow (PaymentID_String (payment_id p)) uid
                       (paymentData p) (snd st) of
                  (Some err, ar) \<Rightarrow> (Inl (''failed to record audit: '' @ err), pr, ar)
                | (None, ar) \<Rightarrow> (Inr p, pr, ar))))"

definition ProcessPayment ::
  "'r audit_Repository \<Rightarrow> Time \<Rightarrow> string \<Rightarrow> Time \<Rightarrow> string \<Rightarrow> string \<Rightarrow>
   PaymentMemoryRepository \<times> 'r \<Rightarrow> error option \<times> PaymentMemoryRepository \<times> 'r" where
  "ProcessPayment arepo now auuid anow paymentID uid st =
     (case payment_GetPayment (PaymentIDFromString paymentID) (fst st) of
        Inl err \<Rightarrow> (Some (''failed to get payment: '' @ err), st)
      | Inr p \<Rightarrow>
          (case payment_ProcessPayment now (PaymentIDFromString paymentID) (fst st) of
             (Some err, pr) \<Rightarrow> (Some (''failed to process payment: '' @ err), pr, snd st)
           | (None, pr) \<Rightarrow>
               (case RecordPaymentStatusChange arepo auuid anow paymentID uid
                       (GString (PaymentStatus_String (status p))) (GString ''processing'')
                       (snd st) of
                  (Some err, ar) \<Rightarrow> (Some (''failed to record audit: '' @ err), pr, ar)
                | (None, ar) \<Rightarrow> (None, pr, ar))))"

definition CompletePayment ::
  "'r audit_Repository \<Rightarrow> Time \<Rightarrow> string \<Rightarrow> Time \<Rightarrow> string \<Rightarrow> string \<Rightarrow>
   PaymentMemoryRepository \<times> 'r \<Rightarrow> error option \<times> PaymentMemoryRepository \<times> 'r" where
  "CompletePayment arepo now auuid anow paymentID uid st =
     (case payment_GetPayment (PaymentIDFromString paymentID) (fst st) of
        Inl err \<Rightarrow> (Some (''failed to get payment: '' @ err), st)
      | Inr p \<Rightarrow>
          (case payment_CompletePayment now (PaymentIDFromString paymentID) (fst st) of
             (Some err, pr) \<Rightarrow> (Some (''failed to complete payment: '' @ err), pr, snd st)
           | (None, pr) \<Rightarrow>
               (case RecordPaymentStatusChange arepo auuid anow paymentID uid
                       (GString (PaymentStatus_String (status p))) (GString ''completed'')
                       (snd st) of
                  (Some err, ar) \<Rightarrow> (Some (''failed to record audit: '' @ err), pr, ar)
                | (None, ar) \<Rightarrow> (None, pr, ar))))"

definition GetPaymentAuditHistory ::
  "'r audit_Repository \<Rightarrow> string \<Rightarrow> 'r \<Rightarrow> AuditEntry list option \<times> error option" where
  "GetPaymentAuditHistory arepo paymentID ar =
     GetAuditHistory arepo EntityTypePayment paymentID ar"

section \<open>The audit entries of the specification\<close>

text \<open>
  The elements of a slice: the nil slice has none.
\<close>

definition slice_list :: "'a list option \<Rightarrow> 'a list" where
  "slice_list s = (case s of None \<Rightarrow> [] | Some xs \<Rightarrow> xs)"

text \<open>
  The entry the specification describes for a status change (section 4.3): the entity is
  the payment, old and new data are one-key snapshots of a status. And the entry it
  describes for a creation (section 4.4): no old data, and the new data a snapshot of
  id, amount, currency, description, status and creation time. Both are written from
  the specification's words; the theorems compare what the code stores with them.
\<close>

definition spec_status_change_entry ::
  "string \<Rightarrow> Time \<Rightarrow> string \<Rightarrow> ActionType \<Rightarrow> string \<Rightarrow> json \<Rightarrow> json \<Rightarrow> AuditEntry" where
  "spec_status_change_entry uuid now pid act uid old new =
     \<lparr>audit_id = AuditID uuid, entityType = EntityTypePayment, entityID = pid, action = act,
      oldData = [''status'' \<mapsto> old], newData = [''status'' \<mapsto> new], userID = uid,
      timestamp = now, metadata = Map.empty\<rparr>"

definition spec_created_entry ::
  "string \<Rightarrow> Time \<Rightarrow> string \<Rightarrow> string \<Rightarrow> real \<Rightarrow> string \<Rightarrow> string \<Rightarrow> Time \<Rightarrow> AuditEntry" where
  "spec_created_entry uuid now pid uid x currency descr created =
     \<lparr>audit_id = AuditID uuid, entityType = EntityTypePayment, entityID = pid,
      action = ActionTypeCreated, oldData = Map.empty,
      newData = [''id'' \<mapsto> JString (jsonString pid), ''amount'' \<mapsto> JNumber (Finite x),
                 ''currency'' \<mapsto> JString (jsonString currency),
                 ''description'' \<mapsto> JString (jsonString descr),
                 ''status'' \<mapsto> JString ''pending'', ''created_at'' \<mapsto> JTime created],
      userID = uid, timestamp = now, metadata = Map.empty\<rparr>"

section \<open>The demonstration run\<close>

text \<open>
  The run of \<^verbatim>\<open>main.go\<close>: a payment of 100.50 USD is created, processed and completed
  by user-123 on fresh in-memory repositories. The identifiers that \<^verbatim>\<open>uuid.New()\<close>
  returns are fixed to p-1, a-1, a-2, a-3 and the clock readings to 1 .. 6.
\<close>

definition demo_payment :: Payment where
  "demo_payment = NewPayment ''p-1'' 1 \<lparr>amt_value = Finite (201 / 2), amt_currency = ''USD''\<rparr> ''Online purchase''"

definition demo_created ::
  "(error + Payment) \<times> PaymentMemoryRepository \<times> AuditMemoryRepository" where
  "demo_created =
     CreatePayment (AuditMemory []) ''p-1'' 1 ''a-1'' 2 (Finite (201 / 2)) ''USD''
       ''Online purchase'' ''user-123'' (NewPaymentMemoryRepository, NewAuditMemoryRepository)"

definition demo_processed ::
  "error option \<times> PaymentMemoryRepository \<times> AuditMemoryRepository" where
  "demo_processed = ProcessPayment (AuditMemory []) 3 ''a-2'' 4 ''p-1'' ''user-123'' (snd demo_created)"

definition demo_completed ::
  "error option \<times> PaymentMemoryRepository \<times> AuditMemoryRepository" where
  "demo_completed = CompletePayment (AuditMemory []) 5 ''a-3'' 6 ''p-1'' ''user-123'' (snd demo_processed)"

definition demo_entry_created :: AuditEntry where
  "demo_entry_created =
     spec_created_entry ''a-1'' 2 ''p-1'' ''user-123'' (201 / 2) ''USD'' ''Online purchase'' 1"

definition demo_entry_processed :: AuditEntry where
  "demo_entry_processed =
     spec_status_change_entry ''a-2'' 4 ''p-1'' ActionTypeProcessed ''user-123''
       (JString ''pending'') (JString ''processing'')"

definition demo_entry_completed :: AuditEntry where
  "demo_entry_completed =
     spec_status_change_entry ''a-3'' 6 ''p-1'' ActionTypeCompleted ''user-123''
       (JString ''processing'') (JString ''completed'')"

text \<open>A filter with an entity type and both date bounds, the bounds at clock readings 4 and 6.\<close>

definition demo_filter :: AuditFilter where
  "demo_filter =
     \<lparr>EntityType = Some EntityTypePayment, EntityID = None, Action = None, UserID = None,
      FromDate = Some 4, ToDate = Some 6\<rparr>"

text \<open>
  An implementation of the audit \<^verbatim>\<open>Repository\<close> interface whose \<^verbatim>\<open>Save\<close> fails: a
  store that is unavailable. Its state is the unit value.
\<close>

definition failing_audit_Repository :: "unit audit_Repository" where
  "failing_audit_Repository =
     \<lparr>Save = (\<lambda>entry r. (Some ''audit store unavailable'', r)),
      FindByID = (\<lambda>aid r. (None, Some ''audit entry not found'')),
      FindByFilter = (\<lambda>flt r. (None, None)),
      FindByEntityID = (\<lambda>etype eid r. (None, None))\<rparr>"

section \<open>Theorems: the payment value objects and the state machine\<close>

lemma guard_message_carries_table_message:
  "sublist (spec_table_message op) (guard_message op)"
proof (cases op)
  case OpProcess
  have "guard_message OpProcess = ''payment '' @ spec_table_message OpProcess @ '' status''"
    by simp
  then show ?thesis unfolding OpProcess sublist_def by blast
next
  case OpComplete
  have "guard_message OpComplete = ''payment '' @ spec_table_message OpComplete @ '' status''"
    by simp
  then show ?thesis unfolding OpComplete sublist_def by blast
next
  case OpFail
  then show ?thesis by simp
next
  case OpCancel
  have "guard_message OpCancel = ''payment '' @ spec_table_message OpCancel @ []"
    by simp
  then show ?thesis unfolding OpCancel sublist_def by blast
qed

text \<open>
  Claim C2. For every Payment: \<open>Process\<close> succeeds if and only if the status is pending,
  and then sets it to processing; \<open>Complete\<close> succeeds if and only if the status is
  processing, and then sets it to completed; \<open>Fail\<close> succeeds if and only if the status
  is not completed, and then sets it to failed; \<open>Cancel\<close> succeeds if and only if the
  status is neither processing nor completed, and then sets it to cancelled.
\<close>

theorem transition_guards:
  "(fst (Process now p) = None \<longleftrightarrow> status p = PaymentStatusPending) \<and>
   (fst (Process now p) = None \<longrightarrow> status (snd (Process now p)) = PaymentStatusProcessing) \<and>
   (fst (Complete now p) = None \<longleftrightarrow> status p = PaymentStatusProcessing) \<and>
   (fst (Complete now p) = None \<longrightarrow> status (snd (Complete now p)) = PaymentStatusCompleted) \<and>
   (fst (Fail now p) = None \<longleftrightarrow> status p \<noteq> PaymentStatusCompleted) \<and>
   (fst (Fail now p) = None \<longrightarrow> status (snd (Fail now p)) = PaymentStatusFailed) \<and>
   (fst (Cancel now p) = None \<longleftrightarrow>
      status p \<noteq> PaymentStatusProcessing \<and> status p \<noteq> PaymentStatusCompleted) \<and>
   (fst (Cancel now p) = None \<longrightarrow> status (snd (Cancel now p)) = PaymentStatusCancelled)"
  by (auto simp: Process_def Complete_def Fail_def Cancel_def)

text \<open>
  The witness runs the four operations on concrete payments: a pending one is processed,
  the processing one is completed, a failed one is failed again and a cancelled one is
  cancelled again.
\<close>

theorem transition_guards_witness:
  "fst (Process 7 \<lparr>payment_id = PaymentID ''p-1'',
        amount = \<lparr>amt_value = Finite 100, amt_currency = ''USD''\<rparr>,
        status = PaymentStatusPending, description = ''d'', createdAt = 1, updatedAt = 1\<rparr>) = None \<and>
   status (snd (Process 7 \<lparr>payment_id = PaymentID ''p-1'',
        amount = \<lparr>amt_value = Finite 100, amt_currency = ''USD''\<rparr>,
        status = PaymentStatusPending, description = ''d'', createdAt = 1, updatedAt = 1\<rparr>))
     = PaymentStatusProcessing \<and>
   fst (Complete 8 \<lparr>payment_id = PaymentID ''p-1'',
        amount = \<lparr>amt_value = Finite 100, amt_currency = ''USD''\<rparr>,
        status = PaymentStatusProcessing, description = ''d'', createdAt = 1, updatedAt = 7\<rparr>) = None \<and>
   status (snd (Complete 8 \<lparr>payment_id = PaymentID ''p-1'',
        amount = \<lparr>amt_value = Finite 100, amt_currency = ''USD''\<rparr>,
        status = PaymentStatusProcessing, description = ''d'', createdAt = 1, updatedAt = 7\<rparr>))
     = PaymentStatusCompleted \<and>
   fst (Fail 9 \<lparr>payment_id = PaymentID ''p-2'',
        amount = \<lparr>amt_value = Finite 100, amt_currency = ''USD''\<rparr>,
        status = PaymentStatusFailed, description = ''d'', createdAt = 1, updatedAt = 2\<rparr>) = None \<and>
   status (snd (Fail 9 \<lparr>payment_id = PaymentID ''p-2'',
        amount = \<lparr>amt_value = Finite 100, amt_currency = ''USD''\<rparr>,
        status = PaymentStatusFailed, description = ''d'', createdAt = 1, updatedAt = 2\<rparr>))
     = PaymentStatusFailed \<and>
   fst (Cancel 9 \<lparr>payment_id = PaymentID ''p-3'',
        amount = \<lparr>amt_value = Finite 100, amt_currency = ''USD''\<rparr>,
        status = PaymentStatusCancelled, description = ''d'', createdAt = 1, updatedAt = 2\<rparr>) = None \<and>
   status (snd (Cancel 9 \<lparr>payment_id = PaymentID ''p-3'',
        amount = \<lparr>amt_value = Finite 100, amt_currency = ''USD''\<rparr>,
        status = PaymentStatusCancelled, description = ''d'', createdAt = 1, updatedAt = 2\<rparr>))
     = PaymentStatusCancelled"
  using
    transition_guards [of 7 "\<lparr>payment_id = PaymentID ''p-1'',
        amount = \<lparr>amt_value = Finite 100, amt_currency = ''USD''\<rparr>,
        status = PaymentStatusPending, description = ''d'', createdAt = 1, updatedAt = 1\<rparr>"]
    transition_guards [of 8 "\<lparr>payment_id = PaymentID ''p-1'',
        amount = \<lparr>amt_value = Finite 100, amt_currency = ''USD''\<rparr>,
        status = PaymentStatusProcessing, description = ''d'', createdAt = 1, updatedAt = 7\<rparr>"]
    transition_guards [of 9 "\<lparr>payment_id = PaymentID ''p-2'',
        amount = \<lparr>amt_value = Finite 100, amt_currency = ''USD''\<rparr>,
        status = PaymentStatusFailed, description = ''d'', createdAt = 1, updatedAt = 2\<rparr>"]
    transition_guards [of 9 "\<lparr>payment_id = PaymentID ''p-3'',
        amount = \<lparr>amt_value = Finite 100, amt_currency = ''USD''\<rparr>,
        status = PaymentStatusCancelled, description = ''d'', createdAt = 1, updatedAt = 2\<rparr>"]
  by (simp add: PaymentStatus_defs)

text \<open>
  Claim C3, as the code has it. For every Payment whose status is one from which the
  transition table does not permit the operation, the call returns an error and leaves
  the entity unchanged: the entity after the call is the entity before it, so status and
  updatedAt keep their values. The error is the guard message of the source, the text
  the package's tests expect; it carries the message of the table's row as a contiguous
  part, and is that message for \<open>Fail\<close> only.
\<close>

theorem rejected_transition_unchanged:
  assumes "status p \<in> spec_statuses - spec_valid_from op"
  shows "run_transition op now p = (Some (guard_message op), p) \<and>
         sublist (spec_table_message op) (guard_message op) \<and>
         status (snd (run_transition op now p)) = status p \<and>
         updatedAt (snd (run_transition op now p)) = updatedAt p"
proof -
  have rejected: "run_transition op now p = (Some (guard_message op), p)"
    using assms
    by (cases op)
      (auto simp: spec_statuses_def Process_def Complete_def Fail_def Cancel_def
        PaymentStatus_defs)
  then show ?thesis
    by (simp add: guard_message_carries_table_message)
qed

theorem rejected_transition_unchanged_witness:
  "PaymentStatusProcessing \<in> spec_statuses - spec_valid_from OpCancel \<and>
   Cancel 9 \<lparr>payment_id = PaymentID ''p-1'',
        amount = \<lparr>amt_value = Finite 100, amt_currency = ''USD''\<rparr>,
        status = PaymentStatusProcessing, description = ''d'', createdAt = 1, updatedAt = 7\<rparr>
     = (Some ''payment cannot be cancelled in current status'',
        \<lparr>payment_id = PaymentID ''p-1'',
        amount = \<lparr>amt_value = Finite 100, amt_currency = ''USD''\<rparr>,
        status = PaymentStatusProcessing, description = ''d'', createdAt = 1, updatedAt = 7\<rparr>)"
proof -
  have h: "status \<lparr>payment_id = PaymentID ''p-1'',
        amount = \<lparr>amt_value = Finite 100, amt_currency = ''USD''\<rparr>,
        status = PaymentStatusProcessing, description = ''d'', createdAt = 1, updatedAt = 7\<rparr>
      \<in> spec_statuses - spec_valid_from OpCancel"
    by (simp add: spec_statuses_def PaymentStatus_defs)
  from rejected_transition_unchanged [OF h, of 9] h show ?thesis
    by simp
qed

text \<open>
  The claim as written promises the exact message of the table. A completed payment is
  not processed, and the error is "payment can only be processed from pending status",
  which is not the "can only be processed from pending" of the table's row.
\<close>

theorem rejected_message_not_table_message:
  "PaymentStatusCompleted \<in> spec_statuses - spec_valid_from OpProcess \<and>
   fst (Process 9 \<lparr>payment_id = PaymentID ''p-1'',
        amount = \<lparr>amt_value = Finite 100, amt_currency = ''USD''\<rparr>,
        status = PaymentStatusCompleted, description = ''d'', createdAt = 1, updatedAt = 8\<rparr>)
     = Some ''payment can only be processed from pending status'' \<and>
   fst (Process 9 \<lparr>payment_id = PaymentID ''p-1'',
        amount = \<lparr>amt_value = Finite 100, amt_currency = ''USD''\<rparr>,
        status = PaymentStatusCompleted, description = ''d'', createdAt = 1, updatedAt = 8\<rparr>)
     \<noteq> Some (spec_table_message OpProcess)"
  by (simp add: Process_def spec_statuses_def PaymentStatus_defs)

text \<open>
  Claim C9, as the code has it. For every value other than a NaN and every currency
  string: construction succeeds exactly when the value is at least zero and the currency
  is not empty. For every value: an Amount that is constructed returns that same value
  and currency; for a value less than zero construction fails with "amount cannot be
  negative", and for an empty currency, with a value of at least zero, it fails with
  "currency cannot be empty".
\<close>

theorem NewAmount_cases:
  "(v \<noteq> NaN \<longrightarrow>
      ((\<exists>a. NewAmount v c = Inr a) \<longleftrightarrow> f64_le (Finite 0) v \<and> c \<noteq> [])) \<and>
   (NewAmount v c = Inr a \<longrightarrow> Value a = v \<and> Currency a = c) \<and>
   (f64_less v (Finite 0) \<longrightarrow> NewAmount v c = Inl ''amount cannot be negative'') \<and>
   (f64_le (Finite 0) v \<and> c = [] \<longrightarrow> NewAmount v c = Inl ''currency cannot be empty'')"
  by (cases v) (auto simp: NewAmount_def Value_def Currency_def)

theorem NewAmount_cases_witness:
  "Finite (201 / 2) \<noteq> NaN \<and> f64_le (Finite 0) (Finite (201 / 2)) \<and>
   NewAmount (Finite (201 / 2)) ''USD''
     = Inr \<lparr>amt_value = Finite (201 / 2), amt_currency = ''USD''\<rparr> \<and>
   Value \<lparr>amt_value = Finite (201 / 2), amt_currency = ''USD''\<rparr> = Finite (201 / 2) \<and>
   Currency \<lparr>amt_value = Finite (201 / 2), amt_currency = ''USD''\<rparr> = ''USD'' \<and>
   f64_less (Finite (- 21 / 2)) (Finite 0) \<and>
   NewAmount (Finite (- 21 / 2)) ''USD'' = Inl ''amount cannot be negative'' \<and>
   NewAmount (Finite (201 / 2)) [] = Inl ''currency cannot be empty''"
  using NewAmount_cases [of "Finite (- 21 / 2)" "''USD''"]
    NewAmount_cases [of "Finite (201 / 2)" "[]"]
    NewAmount_cases [of "Finite (201 / 2)" "''USD''"
      "\<lparr>amt_value = Finite (201 / 2), amt_currency = ''USD''\<rparr>"]
  by (simp add: NewAmount_def)

text \<open>
  The claim as written (success exactly when the value is at least zero and the currency
  is not empty) fails at a NaN: \<^verbatim>\<open>NewAmount(math.NaN(), "USD")\<close> succeeds, and a NaN
  is not at least zero.
\<close>

theorem NewAmount_NaN_accepted:
  "NewAmount NaN ''USD'' = Inr \<lparr>amt_value = NaN, amt_currency = ''USD''\<rparr> \<and>
   \<not> f64_le (Finite 0) NaN"
  by (simp add: NewAmount_def)

text \<open>
  Claim C10. For every string \<open>s\<close>, the empty string and strings that are not UUIDs
  included, \<open>PaymentIDFromString s\<close> is a PaymentID (the function has no error result
  and inspects nothing) whose \<open>String\<close> is \<open>s\<close>. The lookup the application service
  makes with it reads the payment store at the key \<open>s\<close> itself.
\<close>

theorem PaymentIDFromString_roundtrip:
  "PaymentID_String (PaymentIDFromString s) = s \<and>
   payment_GetPayment (PaymentIDFromString s) r =
     (case payments r s of None \<Rightarrow> Inl ''payment not found'' | Some p \<Rightarrow> Inr p)"
  by (simp add: PaymentIDFromString_def payment_GetPayment_def PaymentMemory_FindByID_def)

section \<open>Theorems: the in-memory audit repository\<close>

lemma range_loop:
  "foldl (\<lambda>result k. case m k of None \<Rightarrow> result
            | Some e \<Rightarrow> if P e then append_slice result e else result) acc ks
   = (if filter P (List.map_filter m ks) = [] then acc
      else Some (slice_list acc @ filter P (List.map_filter m ks)))"
proof (induction ks arbitrary: acc)
  case Nil
  then show ?case by simp
next
  case (Cons k ks)
  show ?case
  proof (cases "m k")
    case None
    then show ?thesis using Cons.IH [of acc] by simp
  next
    case (Some e)
    then show ?thesis using Cons.IH [of acc] Cons.IH [of "append_slice acc e"]
      by (cases acc) (simp_all add: append_slice_def slice_list_def)
  qed
qed

lemma range_loop_list:
  "slice_list (foldl (\<lambda>result k. case m k of None \<Rightarrow> result
            | Some e \<Rightarrow> if P e then append_slice result e else result) None ks)
   = filter P (List.map_filter m ks)"
  by (simp add: range_loop slice_list_def)

lemma set_map_filter_range:
  assumes "range_order ks m"
  shows "set (List.map_filter m ks) = ran m"
proof -
  have ks: "set ks = dom m" using assms by (simp add: range_order_def)
  have "set (List.map_filter m ks) = {y. \<exists>k \<in> set ks. m k = Some y}"
    by (force simp: List.map_filter_def image_iff)
  also have "\<dots> = ran m"
    unfolding ks by (auto simp: ran_def)
  finally show ?thesis .
qed

lemma map_filter_range:
  assumes "range_order ks m"
  shows "List.map_filter m ks = map (the \<circ> m) ks"
proof -
  have "filter (\<lambda>k. m k \<noteq> None) ks = ks"
    using assms by (auto simp: range_order_def filter_id_conv)
  then show ?thesis by (simp add: List.map_filter_def)
qed

lemma range_mset:
  assumes "range_order ks m"
  shows "mset (filter P (List.map_filter m ks))
         = image_mset (the \<circ> m) (mset_set {k \<in> dom m. P (the (m k))})"
proof -
  have d: "distinct ks" and s: "set ks = dom m"
    using assms by (simp_all add: range_order_def)
  have "mset (filter P (List.map_filter m ks))
        = image_mset (the \<circ> m) (filter_mset (P \<circ> (the \<circ> m)) (mset ks))"
    by (simp add: map_filter_range [OF assms] filter_map comp_def)
  also have "mset ks = mset_set (dom m)"
    using d s by (metis mset_set_set)
  also have "filter_mset (P \<circ> (the \<circ> m)) (mset_set (dom m))
             = mset_set {k \<in> dom m. P (the (m k))}"
    by (simp add: filter_mset_mset_set s [symmetric] comp_def)
  finally show ?thesis .
qed

lemma matchesFilter_spec: "matchesFilter e flt = spec_filter_matches e flt"
  by (auto simp: matchesFilter_def spec_filter_matches_def split: option.splits)

text \<open>
  Claim C8. For every in-memory audit repository, every order \<open>ks\<close> in which the loop
  may visit its map, every filter and every entry: \<open>FindByFilter\<close> returns no error, and
  the entry is in the result if and only if it is stored and every present predicate of
  the filter matches it (entity type, entity id, action and user id by equality, FromDate
  and ToDate as inclusive bounds on the timestamp; an absent predicate matches every
  entry). \<open>matchesFilter\<close> is that predicate, and the empty filter matches every
  entry.
\<close>

theorem FindByFilter_spec:
  assumes "range_order ks (entries r)"
  shows "snd (AuditMemory_FindByFilter ks flt r) = None \<and>
         (e \<in> set (slice_list (fst (AuditMemory_FindByFilter ks flt r))) \<longleftrightarrow>
            e \<in> ran (entries r) \<and> spec_filter_matches e flt) \<and>
         matchesFilter e flt = spec_filter_matches e flt \<and>
         spec_filter_matches e \<lparr>EntityType = None, EntityID = None, Action = None, UserID = None,
           FromDate = None, ToDate = None\<rparr>"
proof -
  have "set (slice_list (fst (AuditMemory_FindByFilter ks flt r)))
        = {x \<in> ran (entries r). matchesFilter x flt}"
    unfolding AuditMemory_FindByFilter_def fst_conv range_loop_list
    using set_map_filter_range [OF assms] by auto
  then show ?thesis
    by (simp add: matchesFilter_spec AuditMemory_FindByFilter_def spec_filter_matches_def)
qed

text \<open>
  Claim C6. The claim asks for a non-nil empty collection. In the code, for every
  in-memory audit repository that holds no entry of the payment \<open>pid\<close> (the payment need
  not exist), \<open>GetPaymentAuditHistory\<close> returns no error and the nil slice: the
  result variable of \<^verbatim>\<open>FindByEntityID\<close> is declared without a value and only
  \<^verbatim>\<open>append\<close> allocates it.
\<close>

theorem no_history_nil:
  assumes "\<forall>e \<in> ran (entries r). \<not> (entityType e = EntityTypePayment \<and> entityID e = pid)"
  shows "GetPaymentAuditHistory (AuditMemory ks) pid r = (None, None)"
proof -
  have "filter (\<lambda>e. entityType e = EntityTypePayment \<and> entityID e = pid) (List.map_filter (entries r) ks) = []"
    using assms by (auto simp: filter_empty_conv List.map_filter_def ran_def)
  then show ?thesis
    unfolding GetPaymentAuditHistory_def GetAuditHistory_def AuditMemory_def
      AuditMemory_FindByEntityID_def
    by (simp add: range_loop [where m = "entries r" and P = "\<lambda>e. entityType e = EntityTypePayment \<and> entityID e = pid"])
qed

text \<open>The failing input: the history of non-existent-payment on a fresh repository.\<close>

theorem no_history_nil_witness:
  "GetPaymentAuditHistory (AuditMemory []) ''non-existent-payment'' NewAuditMemoryRepository = (None, None)"
  using no_history_nil [of NewAuditMemoryRepository "''non-existent-payment''" "[]"]
  by (simp add: NewAuditMemoryRepository_def)

section \<open>Theorems: the audit domain service\<close>

lemma jsonString_status: "jsonString ''status'' = ''status''"
  by simp

lemma jsonString_statuses:
  "jsonString ''pending'' = ''pending''" "jsonString ''processing'' = ''processing''"
  "jsonString ''completed'' = ''completed''" "jsonString ''failed'' = ''failed''"
  "jsonString ''cancelled'' = ''cancelled''"
  by simp_all

lemma snapshot_roundtrip:
  assumes "Marshal v = Inr j"
  shows "SetOldData (GMap [(''status'', v)]) a = (None, a\<lparr>oldData := [''status'' \<mapsto> j]\<rparr>)"
    and "SetNewData (GMap [(''status'', v)]) a = (None, a\<lparr>newData := [''status'' \<mapsto> j]\<rparr>)"
  using assms
  by (simp_all add: SetOldData_def SetNewData_def Unmarshal_map_def jsonString_status del: jsonString.simps)

lemma RecordAction_status:
  assumes "Marshal old = Inr j" and "Marshal new = Inr j'"
  shows "RecordAction repo uuid now EntityTypePayment pid act uid
           (GMap [(''status'', old)]) (GMap [(''status'', new)]) s
         = Save repo (spec_status_change_entry uuid now pid act uid j j') s"
  by (simp add: RecordAction_def snapshot_roundtrip [OF assms(1)] snapshot_roundtrip [OF assms(2)]
      NewAuditEntry_def spec_status_change_entry_def)

lemma RecordAction_status_memory:
  assumes "Marshal old = Inr j" and "Marshal new = Inr j'"
  shows "RecordAction (AuditMemory ks) uuid now EntityTypePayment pid act uid
           (GMap [(''status'', old)]) (GMap [(''status'', new)]) r
         = (None, r\<lparr>entries := (entries r)(uuid \<mapsto> spec_status_change_entry uuid now pid act uid j j')\<rparr>)"
  by (simp add: RecordAction_status [OF assms] AuditMemory_def AuditMemory_Save_def
      spec_status_change_entry_def)

lemma status_strings:
  "PaymentStatus_String PaymentStatusPending = ''pending''"
  "PaymentStatus_String PaymentStatusProcessing = ''processing''"
  "PaymentStatus_String PaymentStatusCompleted = ''completed''"
  by (simp_all add: PaymentStatus_String_def PaymentStatus_defs)

lemma Marshal_statuses:
  "Marshal (GString ''pending'') = Inr (JString ''pending'')"
  "Marshal (GString ''processing'') = Inr (JString ''processing'')"
  "Marshal (GString ''completed'') = Inr (JString ''completed'')"
  by (simp_all add: jsonString_statuses del: jsonString.simps)

text \<open>
  Claim C5. \<open>RecordPaymentStatusChange\<close> maps the new status "processing" to the action
  processed, "completed" to completed, "failed" to failed and "cancelled" to cancelled:
  on every repository, with an old status \<open>oldStatus\<close> that the encoder accepts (its
  document is \<open>j\<close>), the call saves one entry of that action, whose old and new data are
  the one-key snapshots of the two statuses. For every other new-status value it
  returns the error "unknown payment status" without a call of the repository: the
  state of the repository is the state before the call.
\<close>

theorem RecordPaymentStatusChange_actions:
  "(Marshal oldStatus = Inr j \<longrightarrow>
      RecordPaymentStatusChange repo uuid now pid uid oldStatus (GString ''processing'') s
        = Save repo (spec_status_change_entry uuid now pid ActionTypeProcessed uid j
            (JString ''processing'')) s \<and>
      RecordPaymentStatusChange repo uuid now pid uid oldStatus (GString ''completed'') s
        = Save repo (spec_status_change_entry uuid now pid ActionTypeCompleted uid j
            (JString ''completed'')) s \<and>
      RecordPaymentStatusChange repo uuid now pid uid oldStatus (GString ''failed'') s
        = Save repo (spec_status_change_entry uuid now pid ActionTypeFailed uid j
            (JString ''failed'')) s \<and>
      RecordPaymentStatusChange repo uuid now pid uid oldStatus (GString ''cancelled'') s
        = Save repo (spec_status_change_entry uuid now pid ActionTypeCancelled uid j
            (JString ''cancelled'')) s) \<and>
   (newStatus \<notin> {GString ''processing'', GString ''completed'', GString ''failed'',
                  GString ''cancelled''} \<longrightarrow>
      RecordPaymentStatusChange repo uuid now pid uid oldStatus newStatus s
        = (Some ''unknown payment status'', s))"
proof -
  have new: "Marshal (GString ''processing'') = Inr (JString ''processing'')"
    "Marshal (GString ''completed'') = Inr (JString ''completed'')"
    "Marshal (GString ''failed'') = Inr (JString ''failed'')"
    "Marshal (GString ''cancelled'') = Inr (JString ''cancelled'')"
    by (simp_all add: jsonString_statuses del: jsonString.simps)
  have unknown: "newStatus \<notin> {GString ''processing'', GString ''completed'', GString ''failed'',
                  GString ''cancelled''} \<Longrightarrow>
      RecordPaymentStatusChange repo uuid now pid uid oldStatus newStatus s
        = (Some ''unknown payment status'', s)"
    by (simp add: RecordPaymentStatusChange_def)
  have known: "Marshal oldStatus = Inr j \<Longrightarrow>
      RecordPaymentStatusChange repo uuid now pid uid oldStatus (GString ''processing'') s
        = Save repo (spec_status_change_entry uuid now pid ActionTypeProcessed uid j
            (JString ''processing'')) s"
   "Marshal oldStatus = Inr j \<Longrightarrow>
      RecordPaymentStatusChange repo uuid now pid uid oldStatus (GString ''completed'') s
        = Save repo (spec_status_change_entry uuid now pid ActionTypeCompleted uid j
            (JString ''completed'')) s"
   "Marshal oldStatus = Inr j \<Longrightarrow>
      RecordPaymentStatusChange repo uuid now pid uid oldStatus (GString ''failed'') s
        = Save repo (spec_status_change_entry uuid now pid ActionTypeFailed uid j
            (JString ''failed'')) s"
   "Marshal oldStatus = Inr j \<Longrightarrow>
      RecordPaymentStatusChange repo uuid now pid uid oldStatus (GString ''cancelled'') s
        = Save repo (spec_status_change_entry uuid now pid ActionTypeCancelled uid j
            (JString ''cancelled'')) s"
    by (simp_all add: RecordPaymentStatusChange_def RecordAction_status new del: Marshal.simps)
  from unknown known show ?thesis by blast
qed

text \<open>
  The witness records a change to "processing" on a fresh in-memory repository, which
  then holds the one entry, and a change to "unknown-value", which leaves it empty.
\<close>

theorem RecordPaymentStatusChange_actions_witness:
  "RecordPaymentStatusChange (AuditMemory []) ''a-9'' 7 ''p-1'' ''user-123'' (GString ''pending'')
      (GString ''processing'') NewAuditMemoryRepository
     = (None, \<lparr>entries = [''a-9'' \<mapsto> spec_status_change_entry ''a-9'' 7 ''p-1'' ActionTypeProcessed
          ''user-123'' (JString ''pending'') (JString ''processing'')]\<rparr>) \<and>
   RecordPaymentStatusChange (AuditMemory []) ''a-9'' 7 ''p-1'' ''user-123'' (GString ''pending'')
      (GString ''unknown-value'') NewAuditMemoryRepository
     = (Some ''unknown payment status'', NewAuditMemoryRepository)"
proof -
  have old: "Marshal (GString ''pending'') = Inr (JString ''pending'')"
    by (rule Marshal_statuses)
  have other: "GString ''unknown-value'' \<notin> {GString ''processing'', GString ''completed'',
      GString ''failed'', GString ''cancelled''}"
    by simp
  from RecordPaymentStatusChange_actions [where oldStatus = "GString ''pending''"
      and j = "JString ''pending''" and uuid = "''a-9''" and now = 7
      and pid = "''p-1''" and uid = "''user-123''"
      and newStatus = "GString ''unknown-value''" and repo = "AuditMemory []"
      and s = NewAuditMemoryRepository] old other
  show ?thesis
    by (simp add: NewAuditMemoryRepository_def AuditMemory_def AuditMemory_Save_def
        spec_status_change_entry_def)
qed

section \<open>Theorems: the application service\<close>

lemma filed_under_id_kept:
  "filed_under_id NewPaymentMemoryRepository"
  "filed_under_id r \<Longrightarrow> filed_under_id (snd (PaymentMemory_Save p r))"
  "filed_under_id r \<Longrightarrow> filed_under_id (snd (PaymentMemory_Update p r))"
  "filed_under_id r \<Longrightarrow> filed_under_id (snd (PaymentMemory_Delete i r))"
  by (auto simp: filed_under_id_def NewPaymentMemoryRepository_def PaymentMemory_Save_def
      PaymentMemory_Update_def PaymentMemory_Delete_def split: if_splits)

lemma transition_keeps_id:
  "payment_id (snd (run_transition op now p)) = payment_id p"
  by (cases op) (simp_all add: Process_def Complete_def Fail_def Cancel_def)

lemma PaymentID_String_inverse: "PaymentIDFromString (PaymentID_String i) = i"
  by (cases i) (simp add: PaymentIDFromString_def)

lemma stored_lookup:
  "PaymentMemory_FindByID (payment_id p) pr = Inr p \<longleftrightarrow>
   payments pr (PaymentID_String (payment_id p)) = Some p"
  by (simp add: PaymentMemory_FindByID_def split: option.splits)

lemma payment_ProcessPayment_stored:
  assumes "PaymentMemory_FindByID (payment_id p) pr = Inr p"
  shows "payment_ProcessPayment now (payment_id p) pr =
     (if status p = PaymentStatusPending
      then (None, pr\<lparr>payments := (payments pr)(PaymentID_String (payment_id p) \<mapsto>
              p\<lparr>status := PaymentStatusProcessing, updatedAt := now\<rparr>)\<rparr>)
      else (Some ''payment can only be processed from pending status'', pr))"
proof -
  have "payments pr (PaymentID_String (payment_id p)) = Some p"
    using assms by (simp add: stored_lookup)
  then show ?thesis
    by (simp add: payment_ProcessPayment_def Process_def PaymentMemory_Update_def
        PaymentMemory_FindByID_def)
qed

lemma payment_CompletePayment_stored:
  assumes "PaymentMemory_FindByID (payment_id p) pr = Inr p"
  shows "payment_CompletePayment now (payment_id p) pr =
     (if status p = PaymentStatusProcessing
      then (None, pr\<lparr>payments := (payments pr)(PaymentID_String (payment_id p) \<mapsto>
              p\<lparr>status := PaymentStatusCompleted, updatedAt := now\<rparr>)\<rparr>)
      else (Some ''payment can only be completed from processing status'', pr))"
proof -
  have "payments pr (PaymentID_String (payment_id p)) = Some p"
    using assms by (simp add: stored_lookup)
  then show ?thesis
    by (simp add: payment_CompletePayment_def Complete_def PaymentMemory_Update_def
        PaymentMemory_FindByID_def)
qed

lemma ProcessPayment_stored:
  assumes "PaymentMemory_FindByID (payment_id p) pr = Inr p"
  shows "ProcessPayment arepo now auuid anow (PaymentID_String (payment_id p)) uid (pr, st) =
     (if status p = PaymentStatusPending
      then (case RecordPaymentStatusChange arepo auuid anow (PaymentID_String (payment_id p)) uid
                   (GString ''pending'') (GString ''processing'') st of
              (Some err, st') \<Rightarrow> (Some (''failed to record audit: '' @ err),
                 pr\<lparr>payments := (payments pr)(PaymentID_String (payment_id p) \<mapsto>
                   p\<lparr>status := PaymentStatusProcessing, updatedAt := now\<rparr>)\<rparr>, st')
            | (None, st') \<Rightarrow> (None,
                 pr\<lparr>payments := (payments pr)(PaymentID_String (payment_id p) \<mapsto>
                   p\<lparr>status := PaymentStatusProcessing, updatedAt := now\<rparr>)\<rparr>, st'))
      else (Some ''failed to process payment: payment can only be processed from pending status'',
            pr, st))"
  using assms
  by (simp add: ProcessPayment_def payment_GetPayment_def PaymentID_String_inverse
      payment_ProcessPayment_stored status_strings)

lemma CompletePayment_stored:
  assumes "PaymentMemory_FindByID (payment_id p) pr = Inr p"
  shows "CompletePayment arepo now auuid anow (PaymentID_String (payment_id p)) uid (pr, st) =
     (if status p = PaymentStatusProcessing
      then (case RecordPaymentStatusChange arepo auuid anow (PaymentID_String (payment_id p)) uid
                   (GString ''processing'') (GString ''completed'') st of
              (Some err, st') \<Rightarrow> (Some (''failed to record audit: '' @ err),
                 pr\<lparr>payments := (payments pr)(PaymentID_String (payment_id p) \<mapsto>
                   p\<lparr>status := PaymentStatusCompleted, updatedAt := now\<rparr>)\<rparr>, st')
            | (None, st') \<Rightarrow> (None,
                 pr\<lparr>payments := (payments pr)(PaymentID_String (payment_id p) \<mapsto>
                   p\<lparr>status := PaymentStatusCompleted, updatedAt := now\<rparr>)\<rparr>, st'))
      else (Some ''failed to complete payment: payment can only be completed from processing status'',
            pr, st))"
  using assms
  by (simp add: CompletePayment_def payment_GetPayment_def PaymentID_String_inverse
      payment_CompletePayment_stored status_strings)

lemma RecordPaymentStatusChange_memory:
  "RecordPaymentStatusChange (AuditMemory ks) uuid now pid uid (GString ''pending'')
       (GString ''processing'') r
     = (None, r\<lparr>entries := (entries r)(uuid \<mapsto> spec_status_change_entry uuid now pid
          ActionTypeProcessed uid (JString ''pending'') (JString ''processing''))\<rparr>)"
  "RecordPaymentStatusChange (AuditMemory ks) uuid now pid uid (GString ''processing'')
       (GString ''completed'') r
     = (None, r\<lparr>entries := (entries r)(uuid \<mapsto> spec_status_change_entry uuid now pid
          ActionTypeCompleted uid (JString ''processing'') (JString ''completed''))\<rparr>)"
  by (simp_all add: RecordPaymentStatusChange_def RecordAction_status_memory Marshal_statuses
      del: Marshal.simps)

lemma ProcessPayment_memory:
  assumes "payments pr pid = Some p" and "payment_id p = PaymentID pid"
    and "status p = PaymentStatusPending"
  shows "ProcessPayment (AuditMemory ks) now auuid anow pid uid (pr, ar) =
         (None,
          pr\<lparr>payments := (payments pr)(pid \<mapsto>
              p\<lparr>status := PaymentStatusProcessing, updatedAt := now\<rparr>)\<rparr>,
          ar\<lparr>entries := (entries ar)(auuid \<mapsto> spec_status_change_entry auuid anow pid
              ActionTypeProcessed uid (JString ''pending'') (JString ''processing''))\<rparr>)"
proof -
  have i: "PaymentID_String (payment_id p) = pid"
    using assms(2) by simp
  have "PaymentMemory_FindByID (payment_id p) pr = Inr p"
    using assms(1) by (simp add: PaymentMemory_FindByID_def i)
  from ProcessPayment_stored [OF this, of "AuditMemory ks" now auuid anow uid ar]
  show ?thesis
    unfolding i by (simp add: assms(3) RecordPaymentStatusChange_memory)
qed

lemma CompletePayment_memory:
  assumes "payments pr pid = Some p" and "payment_id p = PaymentID pid"
    and "status p = PaymentStatusProcessing"
  shows "CompletePayment (AuditMemory ks) now auuid anow pid uid (pr, ar) =
         (None,
          pr\<lparr>payments := (payments pr)(pid \<mapsto>
              p\<lparr>status := PaymentStatusCompleted, updatedAt := now\<rparr>)\<rparr>,
          ar\<lparr>entries := (entries ar)(auuid \<mapsto> spec_status_change_entry auuid anow pid
              ActionTypeCompleted uid (JString ''processing'') (JString ''completed''))\<rparr>)"
proof -
  have i: "PaymentID_String (payment_id p) = pid"
    using assms(2) by simp
  have "PaymentMemory_FindByID (payment_id p) pr = Inr p"
    using assms(1) by (simp add: PaymentMemory_FindByID_def i)
  from CompletePayment_stored [OF this, of "AuditMemory ks" now auuid anow uid ar]
  show ?thesis
    unfolding i by (simp add: assms(3) RecordPaymentStatusChange_memory)
qed

lemma failing_audit_record:
  "RecordPaymentStatusChange failing_audit_Repository uuid now pid uid (GString ''pending'')
     (GString ''processing'') () = (Some ''audit store unavailable'', ())"
  "RecordPaymentStatusChange failing_audit_Repository uuid now pid uid (GString ''processing'')
     (GString ''completed'') () = (Some ''audit store unavailable'', ())"
  by (simp_all add: RecordPaymentStatusChange_def RecordAction_def snapshot_roundtrip Marshal_statuses
      failing_audit_Repository_def del: Marshal.simps)

lemma jsonString_keys:
  "jsonString ''id'' = ''id''" "jsonString ''amount'' = ''amount''"
  "jsonString ''currency'' = ''currency''" "jsonString ''description'' = ''description''"
  "jsonString ''created_at'' = ''created_at''"
  by simp_all

lemma sort_paymentData_keys:
  "sort_key fst [(''id'', a), (''amount'', b), (''currency'', c), (''description'', d),
                 (''status'', e), (''created_at'', f)]
   = [(''amount'', b), (''created_at'', f), (''currency'', c), (''description'', d),
      (''id'', a), (''status'', e)]"
  by simp

lemma SetNewData_paymentData:
  "SetNewData (paymentData (NewPayment puuid pnow \<lparr>amt_value = Finite x, amt_currency = currency\<rparr> descr)) a
   = (None, a\<lparr>newData := [''id'' \<mapsto> JString (jsonString puuid), ''amount'' \<mapsto> JNumber (Finite x),
                 ''currency'' \<mapsto> JString (jsonString currency),
                 ''description'' \<mapsto> JString (jsonString descr),
                 ''status'' \<mapsto> JString ''pending'', ''created_at'' \<mapsto> JTime pnow]\<rparr>)"
proof -
  have m: "Marshal (paymentData (NewPayment puuid pnow \<lparr>amt_value = Finite x, amt_currency = currency\<rparr> descr))
    = Inr (JObject [(''amount'', JNumber (Finite x)), (''created_at'', JTime pnow),
         (''currency'', JString (jsonString currency)), (''description'', JString (jsonString descr)),
         (''id'', JString (jsonString puuid)), (''status'', JString ''pending'')])"
    by (simp add: paymentData_def NewPayment_def Value_def Currency_def status_strings
        sort_paymentData_keys jsonString_keys jsonString_status jsonString_statuses del: jsonString.simps sort_key_simps)
  have u: "map_of (rev [(''amount'', JNumber (Finite x)), (''created_at'', JTime pnow),
         (''currency'', JString (jsonString currency)), (''description'', JString (jsonString descr)),
         (''id'', JString (jsonString puuid)), (''status'', JString ''pending'')])
     = [''id'' \<mapsto> JString (jsonString puuid), ''amount'' \<mapsto> JNumber (Finite x),
                 ''currency'' \<mapsto> JString (jsonString currency),
                 ''description'' \<mapsto> JString (jsonString descr),
                 ''status'' \<mapsto> JString ''pending'', ''created_at'' \<mapsto> JTime pnow]"
    by (rule ext) simp
  show ?thesis
    unfolding SetNewData_def m by (simp add: Unmarshal_map_def u del: map_of.simps rev.simps)
qed

lemma CreatePayment_finite:
  assumes "0 \<le> x" and "currency \<noteq> []"
  shows "CreatePayment (AuditMemory ks) puuid pnow auuid anow (Finite x) currency descr uid (pr, ar) =
        (Inr (NewPayment puuid pnow \<lparr>amt_value = Finite x, amt_currency = currency\<rparr> descr),
         pr\<lparr>payments := (payments pr)(puuid \<mapsto>
            NewPayment puuid pnow \<lparr>amt_value = Finite x, amt_currency = currency\<rparr> descr)\<rparr>,
         ar\<lparr>entries := (entries ar)(auuid \<mapsto>
            spec_created_entry auuid anow puuid uid x currency descr pnow)\<rparr>)"
proof -
  have a: "NewAmount (Finite x) currency = Inr \<lparr>amt_value = Finite x, amt_currency = currency\<rparr>"
    using assms by (simp add: NewAmount_def)
  have c: "payment_CreatePayment puuid pnow \<lparr>amt_value = Finite x, amt_currency = currency\<rparr> descr pr
     = (Inr (NewPayment puuid pnow \<lparr>amt_value = Finite x, amt_currency = currency\<rparr> descr),
        pr\<lparr>payments := (payments pr)(puuid \<mapsto>
            NewPayment puuid pnow \<lparr>amt_value = Finite x, amt_currency = currency\<rparr> descr)\<rparr>)"
    by (simp add: payment_CreatePayment_def PaymentMemory_Save_def NewPayment_def)
  have i: "PaymentID_String (payment_id (NewPayment puuid pnow \<lparr>amt_value = Finite x, amt_currency = currency\<rparr> descr)) = puuid"
    by (simp add: NewPayment_def)
  have n: "paymentData q \<noteq> GNil" for q
    by (simp add: paymentData_def)
  have r: "RecordPaymentCreated (AuditMemory ks) auuid anow puuid uid
       (paymentData (NewPayment puuid pnow \<lparr>amt_value = Finite x, amt_currency = currency\<rparr> descr)) ar
     = (None, ar\<lparr>entries := (entries ar)(auuid \<mapsto>
            spec_created_entry auuid anow puuid uid x currency descr pnow)\<rparr>)"
    by (simp add: RecordPaymentCreated_def RecordAction_def SetNewData_paymentData n
        AuditMemory_def AuditMemory_Save_def NewAuditEntry_def spec_created_entry_def)
  show ?thesis
    by (simp add: CreatePayment_def a c i r)
qed

text \<open>
  Claim C1. Let \<open>p\<close> be a payment of the store, filed under its id \<open>pid\<close>, and \<open>uid\<close>
  any user id. On the in-memory repositories \<open>ProcessPayment\<close> succeeds exactly when
  \<open>p\<close> is pending (\<open>CompletePayment\<close>: processing), and a successful call, with the
  identifier \<open>auuid\<close> drawn for the entry new to the audit store, leaves the audit store
  as it was plus one entry under \<open>auuid\<close>: action processed (completed), entity id
  \<open>pid\<close>, user \<open>uid\<close>, old data the one-key snapshot of the prior status and new data
  the one-key snapshot of the new status; the payment is stored with the new status.
  And on every audit repository \<open>arepo\<close>: when the transition succeeds but the audit
  recording fails with \<open>err\<close>, the call returns "failed to record audit: " followed by
  \<open>err\<close>, and the payment store holds the payment with its new status (no rollback).
\<close>

theorem transition_audited:
  assumes "PaymentMemory_FindByID (payment_id p) pr = Inr p"
    and "pid = PaymentID_String (payment_id p)"
  shows
   "(fst (ProcessPayment (AuditMemory ks) now auuid anow pid uid (pr, ar)) = None
       \<longleftrightarrow> status p = PaymentStatusPending) \<and>
    (status p = PaymentStatusPending \<and> auuid \<notin> dom (entries ar) \<longrightarrow>
       ProcessPayment (AuditMemory ks) now auuid anow pid uid (pr, ar) =
         (None,
          pr\<lparr>payments := (payments pr)(pid \<mapsto>
              p\<lparr>status := PaymentStatusProcessing, updatedAt := now\<rparr>)\<rparr>,
          ar\<lparr>entries := (entries ar)(auuid \<mapsto> spec_status_change_entry auuid anow pid
              ActionTypeProcessed uid (JString ''pending'') (JString ''processing''))\<rparr>)) \<and>
    (fst (CompletePayment (AuditMemory ks) now auuid anow pid uid (pr, ar)) = None
       \<longleftrightarrow> status p = PaymentStatusProcessing) \<and>
    (status p = PaymentStatusProcessing \<and> auuid \<notin> dom (entries ar) \<longrightarrow>
       CompletePayment (AuditMemory ks) now auuid anow pid uid (pr, ar) =
         (None,
          pr\<lparr>payments := (payments pr)(pid \<mapsto>
              p\<lparr>status := PaymentStatusCompleted, updatedAt := now\<rparr>)\<rparr>,
          ar\<lparr>entries := (entries ar)(auuid \<mapsto> spec_status_change_entry auuid anow pid
              ActionTypeCompleted uid (JString ''processing'') (JString ''completed''))\<rparr>)) \<and>
    (status p = PaymentStatusPending \<and>
     RecordPaymentStatusChange arepo auuid anow pid uid (GString ''pending'')
       (GString ''processing'') st = (Some err, st') \<longrightarrow>
       ProcessPayment arepo now auuid anow pid uid (pr, st) =
         (Some (''failed to record audit: '' @ err),
          pr\<lparr>payments := (payments pr)(pid \<mapsto>
              p\<lparr>status := PaymentStatusProcessing, updatedAt := now\<rparr>)\<rparr>, st')) \<and>
    (status p = PaymentStatusProcessing \<and>
     RecordPaymentStatusChange arepo auuid anow pid uid (GString ''processing'')
       (GString ''completed'') st = (Some err, st') \<longrightarrow>
       CompletePayment arepo now auuid anow pid uid (pr, st) =
         (Some (''failed to record audit: '' @ err),
          pr\<lparr>payments := (payments pr)(pid \<mapsto>
              p\<lparr>status := PaymentStatusCompleted, updatedAt := now\<rparr>)\<rparr>, st'))"
  unfolding assms(2)
  by (simp add: ProcessPayment_stored [OF assms(1)] CompletePayment_stored [OF assms(1)]
      RecordPaymentStatusChange_memory)

lemma demo_created_state:
  "demo_created =
     (Inr demo_payment, \<lparr>payments = [''p-1'' \<mapsto> demo_payment]\<rparr>,
      \<lparr>entries = [''a-1'' \<mapsto> demo_entry_created]\<rparr>)"
  unfolding demo_created_def demo_payment_def demo_entry_created_def
  by (simp add: CreatePayment_finite NewPaymentMemoryRepository_def NewAuditMemoryRepository_def)

lemma demo_processed_state:
  "demo_processed =
     (None,
      \<lparr>payments = [''p-1'' \<mapsto> demo_payment\<lparr>status := PaymentStatusProcessing, updatedAt := 3\<rparr>]\<rparr>,
      \<lparr>entries = [''a-1'' \<mapsto> demo_entry_created, ''a-2'' \<mapsto> demo_entry_processed]\<rparr>)"
proof -
  have "ProcessPayment (AuditMemory []) 3 ''a-2'' 4 ''p-1'' ''user-123''
          (\<lparr>payments = [''p-1'' \<mapsto> demo_payment]\<rparr>, \<lparr>entries = [''a-1'' \<mapsto> demo_entry_created]\<rparr>)
        = (None,
           \<lparr>payments = [''p-1'' \<mapsto> demo_payment]\<rparr>\<lparr>payments :=
              (payments \<lparr>payments = [''p-1'' \<mapsto> demo_payment]\<rparr>)(''p-1'' \<mapsto>
                 demo_payment\<lparr>status := PaymentStatusProcessing, updatedAt := 3\<rparr>)\<rparr>,
           \<lparr>entries = [''a-1'' \<mapsto> demo_entry_created]\<rparr>\<lparr>entries :=
              (entries \<lparr>entries = [''a-1'' \<mapsto> demo_entry_created]\<rparr>)(''a-2'' \<mapsto>
                 demo_entry_processed)\<rparr>)"
    unfolding demo_entry_processed_def
    by (rule ProcessPayment_memory) (simp_all add: demo_payment_def NewPayment_def)
  then show ?thesis
    by (simp add: demo_processed_def demo_created_state)
qed

lemma demo_completed_state:
  "demo_completed =
     (None,
      \<lparr>payments = [''p-1'' \<mapsto> demo_payment\<lparr>status := PaymentStatusCompleted, updatedAt := 5\<rparr>]\<rparr>,
      \<lparr>entries = [''a-1'' \<mapsto> demo_entry_created, ''a-2'' \<mapsto> demo_entry_processed,
                  ''a-3'' \<mapsto> demo_entry_completed]\<rparr>)"
proof -
  have "CompletePayment (AuditMemory []) 5 ''a-3'' 6 ''p-1'' ''user-123''
          (\<lparr>payments = [''p-1'' \<mapsto> demo_payment\<lparr>status := PaymentStatusProcessing, updatedAt := 3\<rparr>]\<rparr>,
           \<lparr>entries = [''a-1'' \<mapsto> demo_entry_created, ''a-2'' \<mapsto> demo_entry_processed]\<rparr>)
        = (None,
           \<lparr>payments = [''p-1'' \<mapsto> demo_payment\<lparr>status := PaymentStatusProcessing, updatedAt := 3\<rparr>]\<rparr>\<lparr>payments :=
              (payments \<lparr>payments = [''p-1'' \<mapsto> demo_payment\<lparr>status := PaymentStatusProcessing, updatedAt := 3\<rparr>]\<rparr>)(''p-1'' \<mapsto>
                 demo_payment\<lparr>status := PaymentStatusProcessing, updatedAt := 3\<rparr>\<lparr>status := PaymentStatusCompleted, updatedAt := 5\<rparr>)\<rparr>,
           \<lparr>entries = [''a-1'' \<mapsto> demo_entry_created, ''a-2'' \<mapsto> demo_entry_processed]\<rparr>\<lparr>entries :=
              (entries \<lparr>entries = [''a-1'' \<mapsto> demo_entry_created, ''a-2'' \<mapsto> demo_entry_processed]\<rparr>)(''a-3'' \<mapsto>
                 demo_entry_completed)\<rparr>)"
    unfolding demo_entry_completed_def
    by (rule CompletePayment_memory) (simp_all add: demo_payment_def NewPayment_def)
  then show ?thesis
    by (simp add: demo_completed_def demo_processed_state)
qed

lemma demo_entry_fields:
  "entityType demo_entry_created = EntityTypePayment" "entityID demo_entry_created = ''p-1''"
  "entityType demo_entry_processed = EntityTypePayment" "entityID demo_entry_processed = ''p-1''"
  "entityType demo_entry_completed = EntityTypePayment" "entityID demo_entry_completed = ''p-1''"
  "timestamp demo_entry_created = 2" "timestamp demo_entry_processed = 4"
  "timestamp demo_entry_completed = 6"
  "action demo_entry_created = ActionTypeCreated" "action demo_entry_processed = ActionTypeProcessed"
  "action demo_entry_completed = ActionTypeCompleted"
  "userID demo_entry_created = ''user-123''" "userID demo_entry_processed = ''user-123''"
  "userID demo_entry_completed = ''user-123''"
  by (simp_all add: demo_entry_created_def demo_entry_processed_def demo_entry_completed_def
      spec_created_entry_def spec_status_change_entry_def)

lemma demo_range_orders:
  "range_order [''a-2'', ''a-1'', ''a-3''] (entries (snd (snd demo_completed)))"
  "range_order [''a-3'', ''a-1'', ''a-2''] (entries (snd (snd demo_completed)))"
  by (auto simp: demo_completed_state range_order_def)

text \<open>
  The witness processes and completes the payment of the demonstration run, on the
  in-memory audit repository and on the audit repository whose \<open>Save\<close> fails.
\<close>

theorem transition_audited_witness:
  "ProcessPayment (AuditMemory []) 3 ''a-2'' 4 ''p-1'' ''user-123''
      (\<lparr>payments = [''p-1'' \<mapsto> demo_payment]\<rparr>, \<lparr>entries = [''a-1'' \<mapsto> demo_entry_created]\<rparr>)
     = (None,
        \<lparr>payments = [''p-1'' \<mapsto> demo_payment\<lparr>status := PaymentStatusProcessing, updatedAt := 3\<rparr>]\<rparr>,
        \<lparr>entries = [''a-1'' \<mapsto> demo_entry_created, ''a-2'' \<mapsto> demo_entry_processed]\<rparr>) \<and>
   CompletePayment (AuditMemory []) 5 ''a-3'' 6 ''p-1'' ''user-123''
      (\<lparr>payments = [''p-1'' \<mapsto> demo_payment\<lparr>status := PaymentStatusProcessing, updatedAt := 3\<rparr>]\<rparr>,
       \<lparr>entries = [''a-1'' \<mapsto> demo_entry_created, ''a-2'' \<mapsto> demo_entry_processed]\<rparr>)
     = (None,
        \<lparr>payments = [''p-1'' \<mapsto> demo_payment\<lparr>status := PaymentStatusCompleted, updatedAt := 5\<rparr>]\<rparr>,
        \<lparr>entries = [''a-1'' \<mapsto> demo_entry_created, ''a-2'' \<mapsto> demo_entry_processed,
                    ''a-3'' \<mapsto> demo_entry_completed]\<rparr>) \<and>
   ProcessPayment failing_audit_Repository 3 ''a-2'' 4 ''p-1'' ''user-123''
      (\<lparr>payments = [''p-1'' \<mapsto> demo_payment]\<rparr>, ())
     = (Some ''failed to record audit: audit store unavailable'',
        \<lparr>payments = [''p-1'' \<mapsto> demo_payment\<lparr>status := PaymentStatusProcessing, updatedAt := 3\<rparr>]\<rparr>,
        ()) \<and>
   CompletePayment failing_audit_Repository 5 ''a-3'' 6 ''p-1'' ''user-123''
      (\<lparr>payments = [''p-1'' \<mapsto> demo_payment\<lparr>status := PaymentStatusProcessing, updatedAt := 3\<rparr>]\<rparr>, ())
     = (Some ''failed to record audit: audit store unavailable'',
        \<lparr>payments = [''p-1'' \<mapsto> demo_payment\<lparr>status := PaymentStatusCompleted, updatedAt := 5\<rparr>]\<rparr>,
        ())"
proof -
  let ?p1 = "demo_payment"
  let ?p2 = "demo_payment\<lparr>status := PaymentStatusProcessing, updatedAt := 3\<rparr>"
  have s1: "PaymentMemory_FindByID (payment_id ?p1) \<lparr>payments = [''p-1'' \<mapsto> ?p1]\<rparr> = Inr ?p1"
    and i1: "''p-1'' = PaymentID_String (payment_id ?p1)"
    and t1: "status ?p1 = PaymentStatusPending"
    by (simp_all add: PaymentMemory_FindByID_def demo_payment_def NewPayment_def)
  have s2: "PaymentMemory_FindByID (payment_id ?p2) \<lparr>payments = [''p-1'' \<mapsto> ?p2]\<rparr> = Inr ?p2"
    and i2: "''p-1'' = PaymentID_String (payment_id ?p2)"
    and t2: "status ?p2 = PaymentStatusProcessing"
    by (simp_all add: PaymentMemory_FindByID_def demo_payment_def NewPayment_def)
  have f1: "''a-2'' \<notin> dom (entries \<lparr>entries = [''a-1'' \<mapsto> demo_entry_created]\<rparr>)"
    and f2: "''a-3'' \<notin> dom (entries \<lparr>entries = [''a-1'' \<mapsto> demo_entry_created,
                 ''a-2'' \<mapsto> demo_entry_processed]\<rparr>)"
    by simp_all
  from transition_audited [OF s1 i1, where ks = "[]" and now = 3 and auuid = "''a-2''" and anow = 4
      and uid = "''user-123''" and ar = "\<lparr>entries = [''a-1'' \<mapsto> demo_entry_created]\<rparr>"
      and arepo = failing_audit_Repository and st = "()" and st' = "()"
      and err = "''audit store unavailable''"] t1 f1 failing_audit_record(1)
  have a: "ProcessPayment (AuditMemory []) 3 ''a-2'' 4 ''p-1'' ''user-123''
      (\<lparr>payments = [''p-1'' \<mapsto> demo_payment]\<rparr>, \<lparr>entries = [''a-1'' \<mapsto> demo_entry_created]\<rparr>)
     = (None,
        \<lparr>payments = [''p-1'' \<mapsto> demo_payment\<lparr>status := PaymentStatusProcessing, updatedAt := 3\<rparr>]\<rparr>,
        \<lparr>entries = [''a-1'' \<mapsto> demo_entry_created, ''a-2'' \<mapsto> demo_entry_processed]\<rparr>)"
    and c: "ProcessPayment failing_audit_Repository 3 ''a-2'' 4 ''p-1'' ''user-123''
      (\<lparr>payments = [''p-1'' \<mapsto> demo_payment]\<rparr>, ())
     = (Some ''failed to record audit: audit store unavailable'',
        \<lparr>payments = [''p-1'' \<mapsto> demo_payment\<lparr>status := PaymentStatusProcessing, updatedAt := 3\<rparr>]\<rparr>,
        ())"
    by (simp_all add: demo_entry_processed_def)
  from transition_audited [OF s2 i2, where ks = "[]" and now = 5 and auuid = "''a-3''" and anow = 6
      and uid = "''user-123''" and ar = "\<lparr>entries = [''a-1'' \<mapsto> demo_entry_created,
                 ''a-2'' \<mapsto> demo_entry_processed]\<rparr>"
      and arepo = failing_audit_Repository and st = "()" and st' = "()"
      and err = "''audit store unavailable''"] t2 f2 failing_audit_record(2)
  have b: "CompletePayment (AuditMemory []) 5 ''a-3'' 6 ''p-1'' ''user-123''
      (\<lparr>payments = [''p-1'' \<mapsto> demo_payment\<lparr>status := PaymentStatusProcessing, updatedAt := 3\<rparr>]\<rparr>,
       \<lparr>entries = [''a-1'' \<mapsto> demo_entry_created, ''a-2'' \<mapsto> demo_entry_processed]\<rparr>)
     = (None,
        \<lparr>payments = [''p-1'' \<mapsto> demo_payment\<lparr>status := PaymentStatusCompleted, updatedAt := 5\<rparr>]\<rparr>,
        \<lparr>entries = [''a-1'' \<mapsto> demo_entry_created, ''a-2'' \<mapsto> demo_entry_processed,
                    ''a-3'' \<mapsto> demo_entry_completed]\<rparr>)"
    and d: "CompletePayment failing_audit_Repository 5 ''a-3'' 6 ''p-1'' ''user-123''
      (\<lparr>payments = [''p-1'' \<mapsto> demo_payment\<lparr>status := PaymentStatusProcessing, updatedAt := 3\<rparr>]\<rparr>, ())
     = (Some ''failed to record audit: audit store unavailable'',
        \<lparr>payments = [''p-1'' \<mapsto> demo_payment\<lparr>status := PaymentStatusCompleted, updatedAt := 5\<rparr>]\<rparr>,
        ())"
    by (simp_all add: demo_entry_completed_def)
  show ?thesis
    by (intro conjI a b c d)
qed

text \<open>The witness of claim C8 filters the three entries of the demonstration run.\<close>

theorem FindByFilter_spec_witness:
  "range_order [''a-3'', ''a-1'', ''a-2''] (entries (snd (snd demo_completed))) \<and>
   AuditMemory_FindByFilter [''a-3'', ''a-1'', ''a-2''] demo_filter (snd (snd demo_completed))
     = (Some [demo_entry_completed, demo_entry_processed], None) \<and>
   demo_entry_processed \<in> set (slice_list (fst (AuditMemory_FindByFilter
      [''a-3'', ''a-1'', ''a-2''] demo_filter (snd (snd demo_completed))))) \<and>
   spec_filter_matches demo_entry_processed demo_filter \<and>
   demo_entry_created \<notin> set (slice_list (fst (AuditMemory_FindByFilter
      [''a-3'', ''a-1'', ''a-2''] demo_filter (snd (snd demo_completed))))) \<and>
   \<not> spec_filter_matches demo_entry_created demo_filter"
proof -
  note h = demo_range_orders(2)
  have m: "matchesFilter demo_entry_completed demo_filter"
    "matchesFilter demo_entry_processed demo_filter"
    "\<not> matchesFilter demo_entry_created demo_filter"
    by (simp_all add: matchesFilter_def demo_filter_def demo_entry_fields)
  have r: "AuditMemory_FindByFilter [''a-3'', ''a-1'', ''a-2''] demo_filter (snd (snd demo_completed))
     = (Some [demo_entry_completed, demo_entry_processed], None)"
    by (simp add: AuditMemory_FindByFilter_def demo_completed_state m append_slice_def)
  have s: "spec_filter_matches demo_entry_processed demo_filter"
    "\<not> spec_filter_matches demo_entry_created demo_filter"
    by (simp_all add: spec_filter_matches_def demo_filter_def demo_entry_fields)
  have "entries (snd (snd demo_completed)) ''a-2'' = Some demo_entry_processed"
    by (simp add: demo_completed_state)
  then have i: "demo_entry_processed \<in> ran (entries (snd (snd demo_completed)))"
    by (rule ranI)
  from FindByFilter_spec [OF h, of demo_filter demo_entry_processed, THEN conjunct2, THEN conjunct1]
    i s(1)
  have a: "demo_entry_processed \<in> set (slice_list (fst (AuditMemory_FindByFilter
      [''a-3'', ''a-1'', ''a-2''] demo_filter (snd (snd demo_completed)))))"
    by blast
  from FindByFilter_spec [OF h, of demo_filter demo_entry_created, THEN conjunct2, THEN conjunct1]
    s(2)
  have b: "demo_entry_created \<notin> set (slice_list (fst (AuditMemory_FindByFilter
      [''a-3'', ''a-1'', ''a-2''] demo_filter (snd (snd demo_completed)))))"
    by blast
  show ?thesis
    by (intro conjI h r a s b)
qed

text \<open>
  Claim C4, as the code has it. \<open>CreatePayment\<close> with a negative amount, or with an
  empty currency, returns a validation error ("invalid amount: ...") and both stores
  are the stores before the call, whatever the audit repository. With a finite amount
  \<open>x \<ge> 0\<close> and a currency that is not empty, on the in-memory repositories and with
  identifiers new to the two stores, it returns the new payment, which is pending; the
  payment store is the store before plus that payment, and the audit store is the
  store before plus one entry with action created and the caller's user id, whose new
  data hold id, amount, currency, description, status "pending" and the creation time.
\<close>

theorem CreatePayment_audited:
  "(f64_less amt (Finite 0) \<longrightarrow>
      CreatePayment arepo puuid pnow auuid anow amt currency descr uid st
        = (Inl ''invalid amount: amount cannot be negative'', st)) \<and>
   (\<not> f64_less amt (Finite 0) \<and> currency = [] \<longrightarrow>
      CreatePayment arepo puuid pnow auuid anow amt currency descr uid st
        = (Inl ''invalid amount: currency cannot be empty'', st)) \<and>
   (0 \<le> x \<and> currency \<noteq> [] \<and> puuid \<notin> dom (payments pr) \<and> auuid \<notin> dom (entries ar) \<longrightarrow>
      CreatePayment (AuditMemory ks) puuid pnow auuid anow (Finite x) currency descr uid (pr, ar)
        = (Inr (NewPayment puuid pnow \<lparr>amt_value = Finite x, amt_currency = currency\<rparr> descr),
           pr\<lparr>payments := (payments pr)(puuid \<mapsto>
              NewPayment puuid pnow \<lparr>amt_value = Finite x, amt_currency = currency\<rparr> descr)\<rparr>,
           ar\<lparr>entries := (entries ar)(auuid \<mapsto>
              spec_created_entry auuid anow puuid uid x currency descr pnow)\<rparr>) \<and>
      status (NewPayment puuid pnow \<lparr>amt_value = Finite x, amt_currency = currency\<rparr> descr)
        = PaymentStatusPending)"
proof -
  have "f64_less amt (Finite 0) \<Longrightarrow>
      CreatePayment arepo puuid pnow auuid anow amt currency descr uid st
        = (Inl ''invalid amount: amount cannot be negative'', st)"
    by (simp add: CreatePayment_def NewAmount_def)
  moreover have "\<not> f64_less amt (Finite 0) \<Longrightarrow> currency = [] \<Longrightarrow>
      CreatePayment arepo puuid pnow auuid anow amt currency descr uid st
        = (Inl ''invalid amount: currency cannot be empty'', st)"
    by (simp add: CreatePayment_def NewAmount_def)
  moreover have "status (NewPayment puuid pnow \<lparr>amt_value = Finite x, amt_currency = currency\<rparr> descr)
        = PaymentStatusPending"
    by (simp add: NewPayment_def)
  ultimately show ?thesis
    using CreatePayment_finite [of x currency ks puuid pnow auuid anow descr uid pr ar] by blast
qed

theorem CreatePayment_audited_witness:
  "CreatePayment (AuditMemory []) ''p-1'' 1 ''a-1'' 2 (Finite (- 21 / 2)) ''USD'' ''Invalid payment''
      ''user-123'' (NewPaymentMemoryRepository, NewAuditMemoryRepository)
     = (Inl ''invalid amount: amount cannot be negative'',
        NewPaymentMemoryRepository, NewAuditMemoryRepository) \<and>
   CreatePayment (AuditMemory []) ''p-1'' 1 ''a-1'' 2 (Finite (201 / 2)) [] ''Invalid currency payment''
      ''user-123'' (NewPaymentMemoryRepository, NewAuditMemoryRepository)
     = (Inl ''invalid amount: currency cannot be empty'',
        NewPaymentMemoryRepository, NewAuditMemoryRepository) \<and>
   demo_created =
     (Inr demo_payment, \<lparr>payments = [''p-1'' \<mapsto> demo_payment]\<rparr>,
      \<lparr>entries = [''a-1'' \<mapsto> spec_created_entry ''a-1'' 2 ''p-1'' ''user-123'' (201 / 2) ''USD''
          ''Online purchase'' 1]\<rparr>) \<and>
   status demo_payment = PaymentStatusPending \<and>
   newData (spec_created_entry ''a-1'' 2 ''p-1'' ''user-123'' (201 / 2) ''USD'' ''Online purchase'' 1)
      ''status'' = Some (JString ''pending'')"
  using
    CreatePayment_audited [of "Finite (- 21 / 2)" "AuditMemory []" "''p-1''" 1 "''a-1''" 2 "''USD''"
      "''Invalid payment''" "''user-123''" "(NewPaymentMemoryRepository, NewAuditMemoryRepository)"]
    CreatePayment_audited [of "Finite (201 / 2)" "AuditMemory []" "''p-1''" 1 "''a-1''" 2 "[]"
      "''Invalid currency payment''" "''user-123''"
      "(NewPaymentMemoryRepository, NewAuditMemoryRepository)"]
    CreatePayment_audited [where x = "201 / 2" and currency = "''USD''" and puuid = "''p-1''"
      and pr = NewPaymentMemoryRepository and ar = NewAuditMemoryRepository and auuid = "''a-1''"
      and ks = "[]" and pnow = 1 and anow = 2 and descr = "''Online purchase''"
      and uid = "''user-123''" and amt = NaN and arepo = "AuditMemory []"
      and st = "(NewPaymentMemoryRepository, NewAuditMemoryRepository)"]
  by (simp add: demo_created_def demo_payment_def NewPaymentMemoryRepository_def
      NewAuditMemoryRepository_def spec_created_entry_def)

text \<open>
  The claim as written promises the audit entry for every valid input, that is for every
  amount that is at least zero with a currency that is not empty. It fails at the amount
  +Inf, which is at least zero: the payment is saved, the encoder rejects the snapshot
  ("json: unsupported value: +Inf"), no audit entry is stored and the call returns an
  error.
\<close>

theorem CreatePayment_infinite_amount:
  "f64_le (Finite 0) PosInf \<and>
   CreatePayment (AuditMemory []) ''p-1'' 1 ''a-1'' 2 PosInf ''USD'' ''Online purchase'' ''user-123''
      (NewPaymentMemoryRepository, NewAuditMemoryRepository)
     = (Inl ''failed to record audit: json: unsupported value: +Inf'',
        \<lparr>payments = [''p-1'' \<mapsto>
           NewPayment ''p-1'' 1 \<lparr>amt_value = PosInf, amt_currency = ''USD''\<rparr> ''Online purchase'']\<rparr>,
        NewAuditMemoryRepository)"
proof -
  have m: "Marshal (paymentData (NewPayment ''p-1'' 1 \<lparr>amt_value = PosInf, amt_currency = ''USD''\<rparr>
             ''Online purchase''))
           = Inl ''json: unsupported value: +Inf''"
    by (simp add: paymentData_def NewPayment_def Value_def Currency_def sort_paymentData_keys
        del: jsonString.simps sort_key_simps)
  have n: "paymentData q \<noteq> GNil" for q
    by (simp add: paymentData_def)
  have r: "RecordPaymentCreated (AuditMemory []) ''a-1'' 2 ''p-1'' ''user-123''
       (paymentData (NewPayment ''p-1'' 1 \<lparr>amt_value = PosInf, amt_currency = ''USD''\<rparr>
             ''Online purchase'')) NewAuditMemoryRepository
     = (Some ''json: unsupported value: +Inf'', NewAuditMemoryRepository)"
    by (simp add: RecordPaymentCreated_def RecordAction_def SetNewData_def m n)
  have i: "PaymentID_String (payment_id (NewPayment ''p-1'' 1 \<lparr>amt_value = PosInf, amt_currency = ''USD''\<rparr>
             ''Online purchase'')) = ''p-1''"
    by (simp add: NewPayment_def)
  show ?thesis
    by (simp add: CreatePayment_def NewAmount_def payment_CreatePayment_def PaymentMemory_Save_def
        i r NewPaymentMemoryRepository_def)
qed

lemma three_keys:
  assumes "distinct [a1, a2, a3]"
    and "\<forall>e \<in> ran m. \<not> P e" and "P e1" and "P e2" and "P e3"
  shows "image_mset (the \<circ> (m(a1 \<mapsto> e1, a2 \<mapsto> e2, a3 \<mapsto> e3)))
           (mset_set {k \<in> dom (m(a1 \<mapsto> e1, a2 \<mapsto> e2, a3 \<mapsto> e3)).
                       P (the ((m(a1 \<mapsto> e1, a2 \<mapsto> e2, a3 \<mapsto> e3)) k))})
         = {#e1, e2, e3#}"
proof -
  have "{k \<in> dom (m(a1 \<mapsto> e1, a2 \<mapsto> e2, a3 \<mapsto> e3)).
           P (the ((m(a1 \<mapsto> e1, a2 \<mapsto> e2, a3 \<mapsto> e3)) k))} = {a1, a2, a3}"
    using assms by (auto simp: ran_def)
  moreover have "mset_set {a1, a2, a3} = {#a1, a2, a3#}"
    using assms(1) by simp
  ultimately show ?thesis
    using assms(1) by simp
qed

text \<open>
  Claim C7, as the code has it. After a payment is created through the application
  service (finite amount \<open>x \<ge> 0\<close>, currency not empty, no earlier audit entry of that
  payment id, three distinct entry identifiers) and then processed and completed, both
  calls succeed, and for every order \<open>ks\<close> in which the loop may visit the audit map,
  \<open>GetPaymentAuditHistory\<close> returns no error and a list that holds exactly three
  entries, each once: the created entry, the processed entry with old status "pending"
  and new status "processing", and the completed entry with old status "processing" and
  new status "completed". The order of the list is the order of the loop.
\<close>

theorem history_after_complete:
  assumes "0 \<le> x" and "currency \<noteq> []"
    and "distinct [a1, a2, a3]"
    and "\<forall>e \<in> ran (entries ar). \<not> (entityType e = EntityTypePayment \<and> entityID e = puuid)"
    and "CreatePayment (AuditMemory ks0) puuid t0 a1 t1 (Finite x) currency descr uid (pr, ar)
           = (res1, s1)"
    and "ProcessPayment (AuditMemory ks0) t2 a2 t3 puuid uid2 s1 = (res2, s2)"
    and "CompletePayment (AuditMemory ks0) t4 a3 t5 puuid uid3 s2 = (res3, pr3, ar3)"
    and "range_order ks (entries ar3)"
  shows "res2 = None \<and> res3 = None \<and>
         (\<exists>xs. GetPaymentAuditHistory (AuditMemory ks) puuid ar3 = (Some xs, None) \<and>
            mset xs =
              {#spec_created_entry a1 t1 puuid uid x currency descr t0,
                spec_status_change_entry a2 t3 puuid ActionTypeProcessed uid2
                  (JString ''pending'') (JString ''processing''),
                spec_status_change_entry a3 t5 puuid ActionTypeCompleted uid3
                  (JString ''processing'') (JString ''completed'')#})"
proof -
  define p where "p = NewPayment puuid t0 \<lparr>amt_value = Finite x, amt_currency = currency\<rparr> descr"
  define e1 where "e1 = spec_created_entry a1 t1 puuid uid x currency descr t0"
  define e2 where "e2 = spec_status_change_entry a2 t3 puuid ActionTypeProcessed uid2
                  (JString ''pending'') (JString ''processing'')"
  define e3 where "e3 = spec_status_change_entry a3 t5 puuid ActionTypeCompleted uid3
                  (JString ''processing'') (JString ''completed'')"
  define pr1 where "pr1 = pr\<lparr>payments := (payments pr)(puuid \<mapsto> p)\<rparr>"
  define p2 where "p2 = p\<lparr>status := PaymentStatusProcessing, updatedAt := t2\<rparr>"
  define pr2 where "pr2 = pr1\<lparr>payments := (payments pr1)(puuid \<mapsto> p2)\<rparr>"
  define ar1 where "ar1 = ar\<lparr>entries := (entries ar)(a1 \<mapsto> e1)\<rparr>"
  define ar2 where "ar2 = ar1\<lparr>entries := (entries ar1)(a2 \<mapsto> e2)\<rparr>"
  let ?P = "\<lambda>e. entityType e = EntityTypePayment \<and> entityID e = puuid"
  have "CreatePayment (AuditMemory ks0) puuid t0 a1 t1 (Finite x) currency descr uid (pr, ar)
          = (Inr p, pr1, ar1)"
    unfolding p_def pr1_def ar1_def e1_def by (rule CreatePayment_finite [OF assms(1,2)])
  with assms(5) have s1: "s1 = (pr1, ar1)"
    by simp
  have p: "payments pr1 puuid = Some p" "payment_id p = PaymentID puuid"
    "status p = PaymentStatusPending"
    by (simp_all add: pr1_def p_def NewPayment_def)
  have "ProcessPayment (AuditMemory ks0) t2 a2 t3 puuid uid2 (pr1, ar1) = (None, pr2, ar2)"
    unfolding pr2_def ar2_def e2_def p2_def by (rule ProcessPayment_memory [OF p])
  with assms(6) have s2: "res2 = None" "s2 = (pr2, ar2)"
    unfolding s1 by simp_all
  have p2: "payments pr2 puuid = Some p2" "payment_id p2 = PaymentID puuid"
    "status p2 = PaymentStatusProcessing"
    by (simp_all add: pr2_def p2_def p(2))
  have "CompletePayment (AuditMemory ks0) t4 a3 t5 puuid uid3 (pr2, ar2)
          = (None, pr2\<lparr>payments := (payments pr2)(puuid \<mapsto>
                p2\<lparr>status := PaymentStatusCompleted, updatedAt := t4\<rparr>)\<rparr>,
             ar2\<lparr>entries := (entries ar2)(a3 \<mapsto> e3)\<rparr>)"
    unfolding e3_def by (rule CompletePayment_memory [OF p2])
  with assms(7) have s3: "res3 = None" "ar3 = ar2\<lparr>entries := (entries ar2)(a3 \<mapsto> e3)\<rparr>"
    unfolding s2 by simp_all
  have e: "entries ar3 = (entries ar)(a1 \<mapsto> e1, a2 \<mapsto> e2, a3 \<mapsto> e3)"
    by (simp add: s3(2) ar2_def ar1_def)
  have P: "?P e1" "?P e2" "?P e3"
    by (simp_all add: e1_def e2_def e3_def spec_created_entry_def spec_status_change_entry_def)
  have "mset (filter ?P (List.map_filter (entries ar3) ks))
          = image_mset (the \<circ> entries ar3)
              (mset_set {k \<in> dom (entries ar3). ?P (the (entries ar3 k))})"
    by (rule range_mset [OF assms(8)])
  also have "\<dots> = {#e1, e2, e3#}"
    unfolding e by (rule three_keys [OF assms(3,4) P])
  finally have ms: "mset (filter ?P (List.map_filter (entries ar3) ks)) = {#e1, e2, e3#}" .
  have ne: "filter ?P (List.map_filter (entries ar3) ks) \<noteq> []"
  proof
    assume "filter ?P (List.map_filter (entries ar3) ks) = []"
    then have "mset (filter ?P (List.map_filter (entries ar3) ks)) = {#}"
      by (simp only: mset.simps)
    with ms show False
      by (simp only: ms) simp
  qed
  have "GetPaymentAuditHistory (AuditMemory ks) puuid ar3
          = (Some (filter ?P (List.map_filter (entries ar3) ks)), None)"
    unfolding GetPaymentAuditHistory_def GetAuditHistory_def AuditMemory_def
      AuditMemory_FindByEntityID_def
    using ne by (simp add: range_loop [where m = "entries ar3" and P = ?P] slice_list_def)
  with ms s2(1) s3(1) show ?thesis
    unfolding e1_def e2_def e3_def by simp
qed

theorem history_after_complete_witness:
  "range_order [''a-3'', ''a-1'', ''a-2''] (entries (snd (snd demo_completed))) \<and>
   fst demo_processed = None \<and> fst demo_completed = None \<and>
   (\<exists>xs. GetPaymentAuditHistory (AuditMemory [''a-3'', ''a-1'', ''a-2'']) ''p-1''
            (snd (snd demo_completed)) = (Some xs, None) \<and>
         mset xs = {#demo_entry_created, demo_entry_processed, demo_entry_completed#})"
proof -
  have h1: "(0::real) \<le> 201 / 2" and h2: "''USD'' \<noteq> []" and h3: "distinct [''a-1'', ''a-2'', ''a-3'']"
    by simp_all
  have h4: "\<forall>e \<in> ran (entries NewAuditMemoryRepository).
              \<not> (entityType e = EntityTypePayment \<and> entityID e = ''p-1'')"
    by (simp add: NewAuditMemoryRepository_def)
  have h5: "CreatePayment (AuditMemory []) ''p-1'' 1 ''a-1'' 2 (Finite (201 / 2)) ''USD''
       ''Online purchase'' ''user-123'' (NewPaymentMemoryRepository, NewAuditMemoryRepository)
       = (fst demo_created, snd demo_created)"
    by (simp add: demo_created_def)
  have h6: "ProcessPayment (AuditMemory []) 3 ''a-2'' 4 ''p-1'' ''user-123'' (snd demo_created)
       = (fst demo_processed, snd demo_processed)"
    by (simp add: demo_processed_def)
  have h7: "CompletePayment (AuditMemory []) 5 ''a-3'' 6 ''p-1'' ''user-123'' (snd demo_processed)
       = (fst demo_completed, fst (snd demo_completed), snd (snd demo_completed))"
    by (simp add: demo_completed_def)
  note h8 = demo_range_orders(2)
  from history_after_complete [OF h1 h2 h3 h4 h5 h6 h7 h8] h8 show ?thesis
    by (simp add: demo_entry_created_def demo_entry_processed_def demo_entry_completed_def)
qed

text \<open>
  The claim as written promises creation order. In the demonstration run the loop may
  visit the keys in the order a-2, a-1, a-3, and the history is then the processed entry,
  the created entry, the completed entry, although the created entry is the older one.
\<close>

theorem history_order_not_creation_order:
  "fst demo_created = Inr demo_payment \<and> fst demo_processed = None \<and> fst demo_completed = None \<and>
   range_order [''a-2'', ''a-1'', ''a-3''] (entries (snd (snd demo_completed))) \<and>
   GetPaymentAuditHistory (AuditMemory [''a-2'', ''a-1'', ''a-3'']) ''p-1'' (snd (snd demo_completed))
     = (Some [demo_entry_processed, demo_entry_created, demo_entry_completed], None) \<and>
   timestamp demo_entry_created < timestamp demo_entry_processed"
proof -
  have run: "fst demo_created = Inr demo_payment" "fst demo_processed = None"
    "fst demo_completed = None"
    by (simp_all add: demo_created_state demo_processed_state demo_completed_state)
  have history: "GetPaymentAuditHistory (AuditMemory [''a-2'', ''a-1'', ''a-3'']) ''p-1''
       (snd (snd demo_completed))
     = (Some [demo_entry_processed, demo_entry_created, demo_entry_completed], None)"
    by (simp add: demo_completed_state GetPaymentAuditHistory_def GetAuditHistory_def
        AuditMemory_def AuditMemory_FindByEntityID_def demo_entry_fields append_slice_def)
  have times: "timestamp demo_entry_created < timestamp demo_entry_processed"
    by (simp add: demo_entry_fields)
  show ?thesis
    by (intro conjI run demo_range_orders(1) history times)
qed

end
